theory Spec2Isabelle
  imports Complex_Main "HOL-Library.Word"
begin

section \<open>Host values of the embedding layer\<close>

text \<open>
  The layer of \<^verbatim>\<open>femscript.py\<close> converts Python values to the engine's tokens and
  back. Python is dynamically typed, so the model has one datatype of host values, each
  with its exact runtime class (what \<^verbatim>\<open>type(obj)\<close> returns).

  A class is a builtin or a class with a name and one base class (multiple inheritance is
  not modelled). \<^verbatim>\<open>mro\<close> is the method resolution order, most specific first;
  \<^verbatim>\<open>bool\<close> is a subclass of \<^verbatim>\<open>int\<close>, as in Python.
\<close>

datatype pytype =
    T_object | T_str | T_float | T_bool | T_NoneType | T_list | T_bytes | T_dict | T_int
  | T_class string pytype

fun mro :: "pytype \<Rightarrow> pytype list" where
  "mro T_object = [T_object]"
| "mro T_bool = [T_bool, T_int, T_object]"
| "mro (T_class n b) = T_class n b # mro b"
| "mro t = [t, T_object]"

definition issubclass :: "pytype \<Rightarrow> pytype \<Rightarrow> bool" where
  "issubclass c p = (p \<in> set (mro c))"

definition proper_subclass :: "pytype \<Rightarrow> pytype \<Rightarrow> bool" where
  "proper_subclass c p = (issubclass c p \<and> c \<noteq> p)"

definition BaseException_t :: pytype where
  "BaseException_t = T_class ''BaseException'' T_object"

definition Exception_t :: pytype where
  "Exception_t = T_class ''Exception'' BaseException_t"

text \<open>\<^verbatim>\<open>class FemscriptException(Exception): pass\<close> and \<^verbatim>\<open>class Scope(dict)\<close>.\<close>

definition FemscriptException_t :: pytype where
  "FemscriptException_t = T_class ''FemscriptException'' Exception_t"

definition Scope_t :: pytype where
  "Scope_t = T_class ''Scope'' T_dict"

definition coroutine_t :: pytype where
  "coroutine_t = T_class ''coroutine'' T_object"

text \<open>
  A raised exception: its class and what \<^verbatim>\<open>str(exc)\<close> returns. Every function of
  the model that can raise returns \<open>exn + 'a\<close>, \<open>Inl\<close> for the exception.
\<close>

datatype exn = Exn (exn_type: pytype) (exn_str: string)

definition AttributeError :: "string \<Rightarrow> exn" where
  "AttributeError m = Exn (T_class ''AttributeError'' Exception_t) m"

definition TypeError :: "string \<Rightarrow> exn" where
  "TypeError m = Exn (T_class ''TypeError'' Exception_t) m"

definition KeyError :: "string \<Rightarrow> exn" where
  "KeyError m = Exn (T_class ''KeyError'' (T_class ''LookupError'' Exception_t)) m"

definition OverflowError :: "string \<Rightarrow> exn" where
  "OverflowError m = Exn (T_class ''OverflowError'' (T_class ''ArithmeticError'' Exception_t)) m"

text \<open>
  A Python float is an IEEE double. The model keeps the exact value of a finite double as
  a rational, and the three special values. Positive and negative zero are one value
  (\<^verbatim>\<open>-0.0 == 0.0\<close> in Python, and both are integral).
\<close>

datatype pyfloat = Finite rat | PosInf | NegInf | NaN

type_synonym byte = "8 word"

text \<open>
  Host values and tokens. A dict is an association list in insertion order. A token is the
  \<^verbatim>\<open>Token\<close> dict: the keys \<^verbatim>\<open>type\<close>, \<^verbatim>\<open>value\<close>, \<^verbatim>\<open>number\<close> and \<^verbatim>\<open>list\<close> are
  in every token this layer builds; \<^verbatim>\<open>bytes\<close>, \<^verbatim>\<open>scope\<close> and \<^verbatim>\<open>pyobject\<close> may be
  missing. The \<^verbatim>\<open>scope\<close> entry, when present, is \<^verbatim>\<open>None\<close>, a list of variables
  \<^verbatim>\<open>{"name": ..., "value": ...}\<close> (what \<^verbatim>\<open>Token.scope\<close> declares and \<^verbatim>\<open>to_fs\<close>
  builds), or a mapping from names to tokens (what \<^verbatim>\<open>to_py\<close> and \<^verbatim>\<open>execute\<close> read with
  \<^verbatim>\<open>.items()\<close>).

  \<open>PExc n b m\<close> is an exception instance of class \<open>n\<close> with base \<open>b\<close> and message \<open>m\<close>,
  held as data. \<open>PObject n b a\<close> is any other object, of class \<open>n\<close> with base \<open>b\<close>, known
  only by its reference \<open>a\<close>. \<open>PCoroutine r\<close> is the coroutine object of an
  \<^verbatim>\<open>async def\<close>; \<open>r\<close> is what awaiting it gives.
\<close>

datatype pyval =
    PStr string
  | PInt int
  | PFloat pyfloat
  | PBool bool
  | PNone
  | PList "pyval list"
  | PBytes "byte list"
  | PDict "(string \<times> pyval) list"
  | PScope "(string \<times> pyval) list"
  | PExc string pytype string
  | PObject string pytype nat
  | PCoroutine "exn + token"
and token =
    Token (t_type: string) (t_value: string) (t_number: pyfloat) (t_list: "token list")
      (t_bytes: "byte list option") (t_scope: scope_entry) (t_pyobject: "pyval option")
and scope_entry =
    NoScope
  | ScopeNone
  | ScopeVariables "(string \<times> token) list"
  | ScopeItems "(string \<times> token) list"

type_synonym variable = "string \<times> token"

fun type_of :: "pyval \<Rightarrow> pytype" where
  "type_of (PStr s) = T_str"
| "type_of (PInt n) = T_int"
| "type_of (PFloat x) = T_float"
| "type_of (PBool b) = T_bool"
| "type_of PNone = T_NoneType"
| "type_of (PList xs) = T_list"
| "type_of (PBytes bs) = T_bytes"
| "type_of (PDict kvs) = T_dict"
| "type_of (PScope kvs) = Scope_t"
| "type_of (PExc n b m) = T_class n b"
| "type_of (PObject n b a) = T_class n b"
| "type_of (PCoroutine r) = coroutine_t"


section \<open>Dicts, strings and floats of the host\<close>

text \<open>
  \<^verbatim>\<open>d[k] = v\<close> on an insertion-ordered dict: an existing key keeps its position, a new
  key goes last. \<open>dict_of\<close> is a dict built key by key (a dict display or comprehension),
  \<open>dict_get\<close> is \<^verbatim>\<open>d.get(k, default)\<close>.
\<close>

fun dict_set :: "'k \<Rightarrow> 'v \<Rightarrow> ('k \<times> 'v) list \<Rightarrow> ('k \<times> 'v) list" where
  "dict_set k v [] = [(k, v)]"
| "dict_set k v ((k', v') # d) = (if k' = k then (k', v) # d else (k', v') # dict_set k v d)"

definition dict_of :: "('k \<times> 'v) list \<Rightarrow> ('k \<times> 'v) list" where
  "dict_of kvs = foldl (\<lambda>d (k, v). dict_set k v d) [] kvs"

definition dict_get :: "('k \<times> 'v) list \<Rightarrow> 'k \<Rightarrow> 'v \<Rightarrow> 'v" where
  "dict_get d k dflt = (case map_of d k of Some v \<Rightarrow> v | None \<Rightarrow> dflt)"

text \<open>\<^verbatim>\<open>p in s\<close> on strings: \<open>p\<close> occurs in \<open>s\<close> as a contiguous substring.\<close>

fun starts_with :: "string \<Rightarrow> string \<Rightarrow> bool" where
  "starts_with s [] = True"
| "starts_with [] (c # p) = False"
| "starts_with (a # s) (c # p) = (a = c \<and> starts_with s p)"

fun str_contains :: "string \<Rightarrow> string \<Rightarrow> bool" where
  "str_contains [] p = (p = [])"
| "str_contains (a # s) p = (starts_with (a # s) p \<or> str_contains s p)"

text \<open>
  \<^verbatim>\<open>float(n)\<close> for a Python int: the nearest double, ties to even, and OverflowError
  when the rounded value does not fit (CPython's \<^verbatim>\<open>PyLong_AsDouble\<close>). A double has
  53 significant bits and its largest finite value is below \<open>2 ^ 1024\<close>.
\<close>

fun bit_length :: "nat \<Rightarrow> nat" where
  "bit_length n = (if n = 0 then 0 else Suc (bit_length (n div 2)))"

declare bit_length.simps [simp del]

definition float_of_int :: "int \<Rightarrow> exn + pyfloat" where
  "float_of_int n =
     (let a = nat \<bar>n\<bar>; l = bit_length a in
      if l \<le> 53 then Inr (Finite (of_int n))
      else
        let e = l - 53;
            q = a div 2 ^ e;
            r = a mod 2 ^ e;
            half = 2 ^ (e - 1);
            q' = (if half < r \<or> (r = half \<and> odd q) then q + 1 else q);
            m = q' * 2 ^ e
        in if 2 ^ 1024 \<le> m then Inl (OverflowError ''int too large to convert to float'')
           else Inr (Finite (of_int (sgn n * int m))))"

text \<open>\<^verbatim>\<open>float(True)\<close> is 1.0 and \<^verbatim>\<open>float(False)\<close> is 0.0.\<close>

definition float_of_bool :: "bool \<Rightarrow> pyfloat" where
  "float_of_bool b = Finite (if b then 1 else 0)"

text \<open>\<^verbatim>\<open>x.is_integer()\<close>, \<^verbatim>\<open>math.floor(x)\<close> where it is used, and \<^verbatim>\<open>bool(x)\<close>.\<close>

fun is_integer :: "pyfloat \<Rightarrow> bool" where
  "is_integer (Finite q) = (of_int \<lfloor>q\<rfloor> = q)"
| "is_integer x = False"

fun math_floor :: "pyfloat \<Rightarrow> exn + int" where
  "math_floor (Finite q) = Inr \<lfloor>q\<rfloor>"
| "math_floor NaN = Inl (Exn (T_class ''ValueError'' Exception_t) ''cannot convert float NaN to integer'')"
| "math_floor x = Inl (OverflowError ''cannot convert float infinity to integer'')"

fun truth_of_float :: "pyfloat \<Rightarrow> bool" where
  "truth_of_float (Finite q) = (q \<noteq> 0)"
| "truth_of_float x = True"

section \<open>The value codec\<close>

text \<open>
  \<^verbatim>\<open>
  types = {"Str": str, "Int": float, "Bool": bool, "None": type(None),
           "List": list, "Bytes": bytes, "Scope": dict}

  def fs_type(cls, obj):
      return {**{value: key for key, value in types.items()}, int: "Int"}.get(type(obj), "PyObject")
  \<close>
\<close>

definition types :: "(string \<times> pytype) list" where
  "types = [(''Str'', T_str), (''Int'', T_float), (''Bool'', T_bool), (''None'', T_NoneType),
            (''List'', T_list), (''Bytes'', T_bytes), (''Scope'', T_dict)]"

definition fs_type :: "pyval \<Rightarrow> string" where
  "fs_type obj =
     dict_get (dict_set T_int ''Int'' (dict_of (map (\<lambda>(key, value). (value, key)) types)))
       (type_of obj) ''PyObject''"

text \<open>
  \<^verbatim>\<open>to_fs\<close> builds the token with the tag of \<^verbatim>\<open>fs_type\<close>, an empty string, 0.0, an
  empty list and empty bytes, and then sets the one entry that the tag's arm returns.
  The arms are keyed by the tag; each tag stands for one shape of \<open>obj\<close>, so the model
  takes the arm by the shape and the tag from \<open>fs_type\<close>. A list or dict is converted
  element by element, in order; the first exception ends the conversion.
\<close>

fun to_fs :: "pyval \<Rightarrow> exn + token"
  and to_fs_list :: "pyval list \<Rightarrow> exn + token list"
  and to_fs_items :: "(string \<times> pyval) list \<Rightarrow> exn + (string \<times> token) list"
where
  "to_fs (PStr s) = Inr (Token (fs_type (PStr s)) s (Finite 0) [] (Some []) NoScope None)"
| "to_fs (PInt n) =
     (case float_of_int n of
        Inl e \<Rightarrow> Inl e
      | Inr x \<Rightarrow> Inr (Token (fs_type (PInt n)) [] x [] (Some []) NoScope None))"
| "to_fs (PFloat x) = Inr (Token (fs_type (PFloat x)) [] x [] (Some []) NoScope None)"
| "to_fs (PBool b) =
     Inr (Token (fs_type (PBool b)) [] (float_of_bool b) [] (Some []) NoScope None)"
| "to_fs (PList xs) =
     (case to_fs_list xs of
        Inl e \<Rightarrow> Inl e
      | Inr ts \<Rightarrow> Inr (Token (fs_type (PList xs)) [] (Finite 0) ts (Some []) NoScope None))"
| "to_fs (PBytes bs) = Inr (Token (fs_type (PBytes bs)) [] (Finite 0) [] (Some bs) NoScope None)"
| "to_fs PNone = Inr (Token ''None'' [] (Finite 0) [] (Some []) NoScope None)"
| "to_fs (PDict kvs) =
     (case to_fs_items kvs of
        Inl e \<Rightarrow> Inl e
      | Inr vars \<Rightarrow>
          Inr (Token (fs_type (PDict kvs)) [] (Finite 0) [] (Some []) (ScopeVariables vars) None))"
| "to_fs obj = Inr (Token (fs_type obj) [] (Finite 0) [] (Some []) NoScope (Some obj))"
| "to_fs_list [] = Inr []"
| "to_fs_list (x # xs) =
     (case to_fs x of
        Inl e \<Rightarrow> Inl e
      | Inr t \<Rightarrow> (case to_fs_list xs of Inl e \<Rightarrow> Inl e | Inr ts \<Rightarrow> Inr (t # ts)))"
| "to_fs_items [] = Inr []"
| "to_fs_items ((key, v) # kvs) =
     (case to_fs v of
        Inl e \<Rightarrow> Inl e
      | Inr t \<Rightarrow> (case to_fs_items kvs of Inl e \<Rightarrow> Inl e | Inr vars \<Rightarrow> Inr ((key, t) # vars)))"

text \<open>
  \<^verbatim>\<open>to_py\<close>: a tag that contains \<^verbatim>\<open>Error\<close> gives a \<^verbatim>\<open>FemscriptException\<close> with the
  string payload, returned and not raised; otherwise the arm of the tag, and the \<^verbatim>\<open>Str\<close>
  arm for an unknown tag. The \<^verbatim>\<open>Scope\<close> arm reads
  \<^verbatim>\<open>token.get("scope", {}).items()\<close>: a missing entry is the empty mapping, and
  \<^verbatim>\<open>None\<close> or a list has no \<^verbatim>\<open>items\<close>.
\<close>

fun to_py :: "token \<Rightarrow> exn + pyval"
  and to_py_list :: "token list \<Rightarrow> exn + pyval list"
  and to_py_items :: "(string \<times> token) list \<Rightarrow> exn + (string \<times> pyval) list"
  and to_py_scope :: "scope_entry \<Rightarrow> exn + pyval"
where
  "to_py (Token ty v n l b s p) =
     (if str_contains ty ''Error'' then Inr (PExc ''FemscriptException'' Exception_t v)
      else if ty = ''Str'' then Inr (PStr v)
      else if ty = ''Int'' then
        (if \<not> is_integer n then Inr (PFloat n)
         else (case math_floor n of Inl e \<Rightarrow> Inl e | Inr k \<Rightarrow> Inr (PInt k)))
      else if ty = ''Bool'' then Inr (PBool (truth_of_float n))
      else if ty = ''List'' then
        (case to_py_list l of Inl e \<Rightarrow> Inl e | Inr xs \<Rightarrow> Inr (PList xs))
      else if ty = ''Bytes'' then
        (case b of None \<Rightarrow> Inl (KeyError ''bytes'') | Some bs \<Rightarrow> Inr (PBytes bs))
      else if ty = ''None'' then Inr PNone
      else if ty = ''Scope'' then to_py_scope s
      else if ty = ''PyObject'' then
        (case p of None \<Rightarrow> Inl (KeyError ''pyobject'') | Some obj \<Rightarrow> Inr obj)
      else Inr (PStr v))"
| "to_py_list [] = Inr []"
| "to_py_list (t # ts) =
     (case to_py t of
        Inl e \<Rightarrow> Inl e
      | Inr x \<Rightarrow> (case to_py_list ts of Inl e \<Rightarrow> Inl e | Inr xs \<Rightarrow> Inr (x # xs)))"
| "to_py_items [] = Inr []"
| "to_py_items ((name, t) # nts) =
     (case to_py t of
        Inl e \<Rightarrow> Inl e
      | Inr x \<Rightarrow> (case to_py_items nts of Inl e \<Rightarrow> Inl e | Inr kvs \<Rightarrow> Inr ((name, x) # kvs)))"
| "to_py_scope NoScope = Inr (PScope [])"
| "to_py_scope ScopeNone = Inl (AttributeError ''NoneType object has no attribute items'')"
| "to_py_scope (ScopeVariables vars) = Inl (AttributeError ''list object has no attribute items'')"
| "to_py_scope (ScopeItems nts) =
     (case to_py_items nts of Inl e \<Rightarrow> Inl e | Inr kvs \<Rightarrow> Inr (PScope (dict_of kvs)))"

text \<open>
  \<^verbatim>\<open>
  def error(cls, error):
      return Token(type = "Error", value = "Error: " + error, number = 0.0, list = [])
  \<close>
\<close>

definition error :: "string \<Rightarrow> token" where
  "error msg = Token ''Error'' (''Error: '' @ msg) (Finite 0) [] None NoScope None"


section \<open>The function adapter\<close>

text \<open>
  What the evaluator hands to an adapter as \<^verbatim>\<open>args\<close>: a tuple of tokens, a list of
  tokens, or one token. A host callable has a name, is a coroutine function or not, and
  maps positional and keyword arguments to what the call (awaited, when it is a coroutine
  function) returns or raises.
\<close>

datatype arguments = ArgsTuple "token list" | ArgsList "token list" | ArgsToken token

datatype callable =
  Callable (c_name: string) (iscoroutinefunction: bool)
    (call: "pyval list \<Rightarrow> (string \<times> pyval) list \<Rightarrow> exn + pyval")

type_synonym adapter = "string \<Rightarrow> arguments \<Rightarrow> variable list \<Rightarrow> exn + token"

text \<open>\<^verbatim>\<open>**obj\<close> in a call takes a mapping with string keys.\<close>

fun keyword_args :: "pyval \<Rightarrow> exn + (string \<times> pyval) list" where
  "keyword_args (PScope kvs) = Inr kvs"
| "keyword_args (PDict kvs) = Inr kvs"
| "keyword_args obj = Inl (TypeError ''argument after ** must be a mapping'')"

text \<open>
  The body of the \<^verbatim>\<open>try\<close> block, the same in both wrappers:
  \<^verbatim>\<open>
  if not isinstance(args, tuple) and args["type"] == "Scope":
      return self.to_fs(func(*((name,) if with_name is True else ()), **self.to_py(args)))
  return self.to_fs(func(*((name,) if with_name is True else ()), *(self.to_py(arg) for arg in args)))
  \<close>
  A list has no string index. Iterating a single token that is not a scope iterates the
  keys of the token dict, and \<^verbatim>\<open>to_py\<close> of the key \<^verbatim>\<open>"type"\<close> indexes a string
  with a string.
\<close>

definition call_name :: "bool option \<Rightarrow> string \<Rightarrow> pyval list" where
  "call_name with_name name = (if with_name = Some True then [PStr name] else [])"

text \<open>
  The arguments of the call, evaluated before it: the call name when \<^verbatim>\<open>with_name\<close> is
  \<^verbatim>\<open>True\<close>, then either the keywords of the decoded scope or the decoded tokens of the
  tuple in order.
\<close>

definition call_arguments ::
  "bool option \<Rightarrow> string \<Rightarrow> arguments \<Rightarrow> exn + (pyval list \<times> (string \<times> pyval) list)"
where
  "call_arguments with_name name args =
     (case args of
        ArgsTuple ts \<Rightarrow>
          (case to_py_list ts of
             Inl e \<Rightarrow> Inl e
           | Inr xs \<Rightarrow> Inr (call_name with_name name @ xs, []))
      | ArgsList ts \<Rightarrow> Inl (TypeError ''list indices must be integers or slices, not str'')
      | ArgsToken t \<Rightarrow>
          if t_type t = ''Scope'' then
            (case to_py t of
               Inl e \<Rightarrow> Inl e
             | Inr obj \<Rightarrow>
                 (case keyword_args obj of
                    Inl e \<Rightarrow> Inl e
                  | Inr kw \<Rightarrow> Inr (call_name with_name name, kw)))
          else Inl (TypeError ''string indices must be integers, not str''))"

text \<open>The call, and \<^verbatim>\<open>to_fs\<close> of what it returns.\<close>

definition try_body :: "bool option \<Rightarrow> callable \<Rightarrow> string \<Rightarrow> arguments \<Rightarrow> exn + token" where
  "try_body with_name func name args =
     (case call_arguments with_name name args of
        Inl e \<Rightarrow> Inl e
      | Inr (pos, kw) \<Rightarrow>
          (case call func pos kw of
             Inl e \<Rightarrow> Inl e
           | Inr r \<Rightarrow> to_fs r))"

text \<open>\<^verbatim>\<open>except FemscriptException as exc: return self.error(str(exc))\<close>\<close>

definition except_FemscriptException :: "exn + token \<Rightarrow> exn + token" where
  "except_FemscriptException r =
     (case r of
        Inl exc \<Rightarrow>
          if issubclass (exn_type exc) FemscriptException_t then Inr (error (exn_str exc))
          else Inl exc
      | Inr t \<Rightarrow> Inr t)"

text \<open>
  The wrapper of an ordinary callable runs the body. The wrapper of a coroutine function
  returns \<^verbatim>\<open>self.to_fs(wrapper())\<close>: the token of the coroutine object, whose result
  when awaited is the body's.
\<close>

definition wrapper :: "bool option \<Rightarrow> callable \<Rightarrow> adapter" where
  "wrapper with_name func name args scope =
     (if iscoroutinefunction func then
        to_fs (PCoroutine (except_FemscriptException (try_body with_name func name args)))
      else except_FemscriptException (try_body with_name func name args))"

section \<open>The script instance\<close>

text \<open>
  The tokenizer, the parser and the evaluator are the external engine; the model takes
  them as parameters. The tokenizer takes source text. A module table entry is what the
  code stores under the module's name: the source text given at construction, or the
  program that \<^verbatim>\<open>parse\<close> and \<^verbatim>\<open>add_module\<close> store.
\<close>

datatype 'ast module = Source string | Program 'ast

text \<open>
  The instance's state. \<open>the_variables\<close>, \<open>the_functions\<close> and \<open>the_modules\<close> are
  \<^verbatim>\<open>_variables\<close>, \<^verbatim>\<open>_functions\<close> and \<^verbatim>\<open>_modules\<close>.
\<close>

record ('ts, 'ast) femscript =
  tokens :: "'ts option"
  ast :: "'ast option"
  the_variables :: "variable list"
  the_functions :: "(string \<times> adapter) list"
  the_modules :: "(string \<times> 'ast module) list"

record ('ts, 'ast) engine =
  generate_tokens :: "string \<Rightarrow> exn + 'ts"
  generate_ast :: "'ts \<Rightarrow> exn + 'ast"
  execute_ast ::
    "'ast \<Rightarrow> variable list \<Rightarrow> (string \<times> adapter) list \<Rightarrow> (string \<times> 'ast module) list \<Rightarrow> bool
      \<Rightarrow> exn + (token \<times> (string \<times> token) list)"

text \<open>
  Modelled from the spec: the tokenizer is the external engine's, missing from the
  sources; its contract is \<^verbatim>\<open>tokenize(sourceText) -> tokenStream\<close>, so on text it is
  the parameter \<open>generate_tokens\<close>, and handed a program instead of text it raises
  TypeError.

  \<^verbatim>\<open>generate_ast(generate_tokens(self._modules[module]))\<close> on one entry: the tokenizer
  is given whatever the table holds under the name.
\<close>

definition parse_module :: "('ts, 'ast) engine \<Rightarrow> 'ast module \<Rightarrow> exn + 'ast" where
  "parse_module eng m =
     (case m of
        Source code \<Rightarrow>
          (case generate_tokens eng code of Inl e \<Rightarrow> Inl e | Inr ts \<Rightarrow> generate_ast eng ts)
      | Program p \<Rightarrow> Inl (TypeError ''argument code: list object cannot be converted to PyString''))"

text \<open>
  The loop of \<^verbatim>\<open>parse\<close> over the module table, in order. An exception leaves the
  entries already replaced as they are.
\<close>

fun parse_modules ::
  "('ts, 'ast) engine \<Rightarrow> (string \<times> 'ast module) list \<Rightarrow> (exn + unit) \<times> (string \<times> 'ast module) list"
where
  "parse_modules eng [] = (Inr (), [])"
| "parse_modules eng ((name, m) # rest) =
     (case parse_module eng m of
        Inl e \<Rightarrow> (Inl e, (name, m) # rest)
      | Inr p \<Rightarrow>
          (case parse_modules eng rest of (r, rest') \<Rightarrow> (r, (name, Program p) # rest')))"

text \<open>
  \<^verbatim>\<open>
  def parse(self, code = None):
      self.tokens = generate_tokens(code or "")
      self.ast = generate_ast(self.tokens)
      for module in self._modules:
          self._modules[module] = generate_ast(generate_tokens(self._modules[module]))
  \<close>
\<close>

definition parse ::
  "('ts, 'ast) engine \<Rightarrow> ('ts, 'ast) femscript \<Rightarrow> string option
    \<Rightarrow> (exn + unit) \<times> ('ts, 'ast) femscript"
where
  "parse eng self code =
     (case generate_tokens eng (case code of None \<Rightarrow> [] | Some c \<Rightarrow> c) of
        Inl e \<Rightarrow> (Inl e, self)
      | Inr ts \<Rightarrow>
          (let self1 = self\<lparr>tokens := Some ts\<rparr> in
           case generate_ast eng ts of
             Inl e \<Rightarrow> (Inl e, self1)
           | Inr a \<Rightarrow>
               (let self2 = self1\<lparr>ast := Some a\<rparr> in
                case parse_modules eng (the_modules self2) of
                  (r, ms) \<Rightarrow> (r, self2\<lparr>the_modules := ms\<rparr>))))"

text \<open>
  \<^verbatim>\<open>__init__\<close>: \<^verbatim>\<open>variables or []\<close>, \<^verbatim>\<open>functions or []\<close>, \<^verbatim>\<open>modules or {}\<close>
  (module sources by name), and \<^verbatim>\<open>parse(code)\<close> when a code is given.
\<close>

definition init ::
  "('ts, 'ast) engine \<Rightarrow> string option \<Rightarrow> variable list option \<Rightarrow> (string \<times> adapter) list option
    \<Rightarrow> (string \<times> string) list option \<Rightarrow> (exn + unit) \<times> ('ts, 'ast) femscript"
where
  "init eng code variables functions modules =
     (let self = \<lparr>tokens = None, ast = None,
                  the_variables = (case variables of None \<Rightarrow> [] | Some vs \<Rightarrow> vs),
                  the_functions = (case functions of None \<Rightarrow> [] | Some fs \<Rightarrow> fs),
                  the_modules = (case modules of None \<Rightarrow> []
                              | Some ms \<Rightarrow> map (\<lambda>(name, src). (name, Source src)) ms)\<rparr>
      in case code of None \<Rightarrow> (Inr (), self) | Some c \<Rightarrow> parse eng self (Some c))"

text \<open>
  \<^verbatim>\<open>
  def add_variable(self, variable):
      for index, _variable in enumerate(self._variables):
          if _variable["name"] == variable["name"]:
              break
      else:
          return self._variables.append(variable)
      self._variables[index] = variable
  \<close>
  \<open>scan\<close> is the loop: the index at the \<^verbatim>\<open>break\<close>, or \<open>None\<close> when the list ends.
\<close>

fun scan :: "string \<Rightarrow> nat \<Rightarrow> variable list \<Rightarrow> nat option" where
  "scan nm index [] = None"
| "scan nm index (v # vs) = (if fst v = nm then Some index else scan nm (Suc index) vs)"

definition add_variable :: "('ts, 'ast) femscript \<Rightarrow> variable \<Rightarrow> ('ts, 'ast) femscript" where
  "add_variable self variable =
     (case scan (fst variable) 0 (the_variables self) of
        None \<Rightarrow> self\<lparr>the_variables := the_variables self @ [variable]\<rparr>
      | Some index \<Rightarrow> self\<lparr>the_variables := (the_variables self)[index := variable]\<rparr>)"

text \<open>\<^verbatim>\<open>self._modules[name] = generate_ast(generate_tokens(code))\<close>\<close>

definition add_module ::
  "('ts, 'ast) engine \<Rightarrow> ('ts, 'ast) femscript \<Rightarrow> string \<Rightarrow> string
    \<Rightarrow> (exn + unit) \<times> ('ts, 'ast) femscript"
where
  "add_module eng self name code =
     (case parse_module eng (Source code) of
        Inl e \<Rightarrow> (Inl e, self)
      | Inr p \<Rightarrow> (Inr (), self\<lparr>the_modules := dict_set name (Program p) (the_modules self)\<rparr>))"

text \<open>
  The \<^verbatim>\<open>variables\<close> property:
  \<^verbatim>\<open>{item["name"]: self.to_py(item["value"]) for item in self._variables}\<close>
\<close>

fun variables_from :: "(string \<times> pyval) list \<Rightarrow> variable list \<Rightarrow> exn + (string \<times> pyval) list" where
  "variables_from d [] = Inr d"
| "variables_from d (item # items) =
     (case to_py (snd item) of
        Inl e \<Rightarrow> Inl e
      | Inr x \<Rightarrow> variables_from (dict_set (fst item) x d) items)"

definition variables :: "('ts, 'ast) femscript \<Rightarrow> exn + (string \<times> pyval) list" where
  "variables self = variables_from [] (the_variables self)"

text \<open>
  \<^verbatim>\<open>
  async def execute(self, *, debug = False):
      result, scope = await execute_ast(self.ast, self._variables, self._functions, self._modules, debug)
      self._variables = [{"name": key, "value": value} for key, value in scope.items()]
      return self.to_py(result)
  \<close>
  \<^verbatim>\<open>self.ast\<close> is not set before the first \<^verbatim>\<open>parse\<close>.
\<close>

definition execute ::
  "('ts, 'ast) engine \<Rightarrow> ('ts, 'ast) femscript \<Rightarrow> bool \<Rightarrow> (exn + pyval) \<times> ('ts, 'ast) femscript"
where
  "execute eng self debug =
     (case ast self of
        None \<Rightarrow> (Inl (AttributeError ''Femscript object has no attribute ast''), self)
      | Some a \<Rightarrow>
          (case execute_ast eng a (the_variables self) (the_functions self) (the_modules self) debug of
             Inl e \<Rightarrow> (Inl e, self)
           | Inr (result, scope) \<Rightarrow>
               (to_py result, self\<lparr>the_variables := map (\<lambda>(key, v). (key, v)) scope\<rparr>)))"

text \<open>
  \<^verbatim>\<open>wrap_function\<close> called with a callable: the wrapper is appended to the function
  table under \<^verbatim>\<open>func_name or func.__name__\<close> and returned.
\<close>

definition wrap_function ::
  "('ts, 'ast) femscript \<Rightarrow> callable \<Rightarrow> string option \<Rightarrow> bool option
    \<Rightarrow> adapter \<times> ('ts, 'ast) femscript"
where
  "wrap_function self func func_name with_name =
     (let w = wrapper with_name func;
          nm = (case func_name of None \<Rightarrow> c_name func
                | Some n \<Rightarrow> if n = [] then c_name func else n)
      in (w, self\<lparr>the_functions := the_functions self @ [(nm, w)]\<rparr>))"


section \<open>Rendering a scope\<close>

text \<open>
  \<^verbatim>\<open>
  class Scope(dict):
      format_depth = 0

      def __str__(self) -> str:
          Scope.format_depth += 1
          space = "    " * Scope.format_depth
          string = "{\n" + "\n".join(f"{space}{key} = {value!r};" for key, value in self.items())
                   + f"\n{"    " * (Scope.format_depth - 1)}}}"
          Scope.format_depth -= 1
          return string

      __repr__ = __str__
  \<close>
  \<^verbatim>\<open>Scope.format_depth\<close> is one counter for the whole process: the model passes it in
  and returns it with the string. \<^verbatim>\<open>repr\<close> of a nested scope is this function again;
  \<^verbatim>\<open>repr\<close> of a list or a dict calls \<^verbatim>\<open>repr\<close> on what it holds; \<^verbatim>\<open>repr\<close> of any
  other value is Python's own and is the parameter \<open>atom\<close>.
\<close>

definition str_mul :: "string \<Rightarrow> int \<Rightarrow> string" where
  "str_mul s n = concat (replicate (nat n) s)"

fun join :: "string \<Rightarrow> string list \<Rightarrow> string" where
  "join sep [] = []"
| "join sep [x] = x"
| "join sep (x # y # ys) = x @ sep @ join sep (y # ys)"

definition newline :: string where
  "newline = [CHR 0x0A]"

function (sequential) repr :: "(pyval \<Rightarrow> string) \<Rightarrow> pyval \<Rightarrow> int \<Rightarrow> string \<times> int"
  and Scope_lines ::
    "(pyval \<Rightarrow> string) \<Rightarrow> string \<Rightarrow> (string \<times> pyval) list \<Rightarrow> int \<Rightarrow> string list \<times> int"
  and repr_list :: "(pyval \<Rightarrow> string) \<Rightarrow> pyval list \<Rightarrow> int \<Rightarrow> string list \<times> int"
  and repr_items :: "(pyval \<Rightarrow> string) \<Rightarrow> (string \<times> pyval) list \<Rightarrow> int \<Rightarrow> string list \<times> int"
where
  "repr atom (PScope kvs) depth =
     (let depth1 = depth + 1;
          space = str_mul ''    '' depth1
      in case Scope_lines atom space kvs depth1 of
           (lines, depth2) \<Rightarrow>
             (''{'' @ newline @ join newline lines @ newline @ str_mul ''    '' (depth2 - 1) @ ''}'',
              depth2 - 1))"
| "repr atom (PList xs) depth =
     (case repr_list atom xs depth of (rs, depth') \<Rightarrow> (''['' @ join '', '' rs @ '']'', depth'))"
| "repr atom (PDict kvs) depth =
     (case repr_items atom kvs depth of (rs, depth') \<Rightarrow> (''{'' @ join '', '' rs @ ''}'', depth'))"
| "repr atom obj depth = (atom obj, depth)"
| "Scope_lines atom space [] depth = ([], depth)"
| "Scope_lines atom space ((key, v) # kvs) depth =
     (case repr atom v depth of
        (r, depth1) \<Rightarrow>
          (case Scope_lines atom space kvs depth1 of
             (lines, depth2) \<Rightarrow> ((space @ key @ '' = '' @ r @ '';'') # lines, depth2)))"
| "repr_list atom [] depth = ([], depth)"
| "repr_list atom (x # xs) depth =
     (case repr atom x depth of
        (r, depth1) \<Rightarrow>
          (case repr_list atom xs depth1 of (rs, depth2) \<Rightarrow> (r # rs, depth2)))"
| "repr_items atom [] depth = ([], depth)"
| "repr_items atom ((key, v) # kvs) depth =
     (case repr atom v depth of
        (r, depth1) \<Rightarrow>
          (case repr_items atom kvs depth1 of
             (rs, depth2) \<Rightarrow> ((atom (PStr key) @ '': '' @ r) # rs, depth2)))"
  by pat_completeness auto

termination
  by (relation "measure (\<lambda>x. case x of
        Inl (Inl (atom, v, depth)) \<Rightarrow> size v
      | Inl (Inr (atom, space, kvs, depth)) \<Rightarrow> size_list (size_prod (\<lambda>k. 0) size) kvs
      | Inr (Inl (atom, xs, depth)) \<Rightarrow> size_list size xs
      | Inr (Inr (atom, kvs, depth)) \<Rightarrow> size_list (size_prod (\<lambda>k. 0) size) kvs)") auto

text \<open>\<^verbatim>\<open>Scope.__str__\<close> is the \<^verbatim>\<open>repr\<close> of a scope (\<^verbatim>\<open>__repr__ = __str__\<close>).\<close>

definition Scope_str :: "(pyval \<Rightarrow> string) \<Rightarrow> (string \<times> pyval) list \<Rightarrow> int \<Rightarrow> string \<times> int" where
  "Scope_str atom kvs depth = repr atom (PScope kvs) depth"

text \<open>
  The rendering the specification describes, with the depth as a parameter of each call
  and no counter: a scope at depth \<open>d\<close> writes its entries one level in, renders the
  values it holds at depth \<open>d + 1\<close>, and closes at depth \<open>d\<close>.
\<close>

function (sequential) render_at :: "(pyval \<Rightarrow> string) \<Rightarrow> int \<Rightarrow> pyval \<Rightarrow> string"
  and render_entries_at :: "(pyval \<Rightarrow> string) \<Rightarrow> int \<Rightarrow> (string \<times> pyval) list \<Rightarrow> string list"
  and render_list_at :: "(pyval \<Rightarrow> string) \<Rightarrow> int \<Rightarrow> pyval list \<Rightarrow> string list"
  and render_items_at :: "(pyval \<Rightarrow> string) \<Rightarrow> int \<Rightarrow> (string \<times> pyval) list \<Rightarrow> string list"
where
  "render_at atom d (PScope kvs) =
     ''{'' @ newline @ join newline (render_entries_at atom (d + 1) kvs) @ newline
       @ str_mul ''    '' d @ ''}''"
| "render_at atom d (PList xs) = ''['' @ join '', '' (render_list_at atom d xs) @ '']''"
| "render_at atom d (PDict kvs) = ''{'' @ join '', '' (render_items_at atom d kvs) @ ''}''"
| "render_at atom d obj = atom obj"
| "render_entries_at atom d [] = []"
| "render_entries_at atom d ((key, v) # kvs) =
     (str_mul ''    '' d @ key @ '' = '' @ render_at atom d v @ '';'') # render_entries_at atom d kvs"
| "render_list_at atom d [] = []"
| "render_list_at atom d (x # xs) = render_at atom d x # render_list_at atom d xs"
| "render_items_at atom d [] = []"
| "render_items_at atom d ((key, v) # kvs) =
     (atom (PStr key) @ '': '' @ render_at atom d v) # render_items_at atom d kvs"
  by pat_completeness auto

termination
  by (relation "measure (\<lambda>x. case x of
        Inl (Inl (atom, d, v)) \<Rightarrow> size v
      | Inl (Inr (atom, d, kvs)) \<Rightarrow> size_list (size_prod (\<lambda>k. 0) size) kvs
      | Inr (Inl (atom, d, xs)) \<Rightarrow> size_list size xs
      | Inr (Inr (atom, d, kvs)) \<Rightarrow> size_list (size_prod (\<lambda>k. 0) size) kvs)") auto

section \<open>Values and tokens the properties speak of\<close>

text \<open>\<^verbatim>\<open>to_py(to_fs(v))\<close>, with the exception of either step.\<close>

definition to_py_to_fs :: "pyval \<Rightarrow> exn + pyval" where
  "to_py_to_fs v = (case to_fs v of Inl e \<Rightarrow> Inl e | Inr t \<Rightarrow> to_py t)"

text \<open>
  An int that a double holds exactly: below \<open>2 ^ 1024\<close> in magnitude, and nothing but
  zeros under its 53 leading bits.
\<close>

definition representable :: "int \<Rightarrow> bool" where
  "representable n =
     (\<bar>n\<bar> < 2 ^ 1024 \<and> nat \<bar>n\<bar> mod 2 ^ (bit_length (nat \<bar>n\<bar>) - 53) = 0)"

text \<open>
  The values built from strings, such ints, floats, booleans, \<^verbatim>\<open>None\<close>, byte strings and
  lists of these. \<open>int_form\<close> writes every integral float of a value as the int of the same
  number; \<open>integral_free\<close> values hold no integral float.
\<close>

fun plain :: "pyval \<Rightarrow> bool"
  and plain_list :: "pyval list \<Rightarrow> bool"
where
  "plain (PStr s) = True"
| "plain (PInt n) = representable n"
| "plain (PFloat x) = True"
| "plain (PBool b) = True"
| "plain PNone = True"
| "plain (PList xs) = plain_list xs"
| "plain (PBytes bs) = True"
| "plain v = False"
| "plain_list [] = True"
| "plain_list (x # xs) = (plain x \<and> plain_list xs)"

fun int_form :: "pyval \<Rightarrow> pyval"
  and int_form_list :: "pyval list \<Rightarrow> pyval list"
where
  "int_form (PFloat (Finite q)) = (if of_int \<lfloor>q\<rfloor> = q then PInt \<lfloor>q\<rfloor> else PFloat (Finite q))"
| "int_form (PList xs) = PList (int_form_list xs)"
| "int_form v = v"
| "int_form_list [] = []"
| "int_form_list (x # xs) = int_form x # int_form_list xs"

fun integral_free :: "pyval \<Rightarrow> bool"
  and integral_free_list :: "pyval list \<Rightarrow> bool"
where
  "integral_free (PFloat x) = (\<not> is_integer x)"
| "integral_free (PList xs) = integral_free_list xs"
| "integral_free v = True"
| "integral_free_list [] = True"
| "integral_free_list (x # xs) = (integral_free x \<and> integral_free_list xs)"

text \<open>
  The tokens that \<^verbatim>\<open>to_py\<close> has an answer for: the entry that the tag's arm reads is
  there, a \<^verbatim>\<open>scope\<close> entry is a mapping (or missing), and so on for the tokens of a list
  or a mapping.
\<close>

fun decodable :: "token \<Rightarrow> bool"
  and decodable_list :: "token list \<Rightarrow> bool"
  and decodable_items :: "(string \<times> token) list \<Rightarrow> bool"
  and decodable_scope :: "scope_entry \<Rightarrow> bool"
where
  "decodable (Token ty v n l b s p) =
     (if str_contains ty ''Error'' then True
      else if ty = ''List'' then decodable_list l
      else if ty = ''Bytes'' then b \<noteq> None
      else if ty = ''Scope'' then decodable_scope s
      else if ty = ''PyObject'' then p \<noteq> None
      else True)"
| "decodable_list [] = True"
| "decodable_list (t # ts) = (decodable t \<and> decodable_list ts)"
| "decodable_items [] = True"
| "decodable_items ((name, t) # nts) = (decodable t \<and> decodable_items nts)"
| "decodable_scope NoScope = True"
| "decodable_scope ScopeNone = False"
| "decodable_scope (ScopeVariables vars) = False"
| "decodable_scope (ScopeItems nts) = decodable_items nts"

section \<open>Properties of the codec\<close>

lemma fs_type_by_type:
  "fs_type obj =
     (case type_of obj of
        T_str \<Rightarrow> ''Str'' | T_float \<Rightarrow> ''Int'' | T_bool \<Rightarrow> ''Bool'' | T_NoneType \<Rightarrow> ''None''
      | T_list \<Rightarrow> ''List'' | T_bytes \<Rightarrow> ''Bytes'' | T_dict \<Rightarrow> ''Scope'' | T_int \<Rightarrow> ''Int''
      | T_object \<Rightarrow> ''PyObject'' | T_class n b \<Rightarrow> ''PyObject'')"
  by (simp add: fs_type_def types_def dict_of_def dict_get_def split: pytype.splits)

text \<open>
  C6. \<^verbatim>\<open>error(m)\<close> is a token tagged \<^verbatim>\<open>Error\<close> whose string payload is
  \<^verbatim>\<open>"Error: " + m\<close>, whose number is zero and whose list is empty; \<^verbatim>\<open>to_py\<close> returns
  (as a value, not as a raised exception) a \<^verbatim>\<open>FemscriptException\<close> with that payload
  as its message, so \<^verbatim>\<open>to_py(error("boom"))\<close> carries \<^verbatim>\<open>"Error: boom"\<close>.
\<close>

theorem error_is_error_token:
  "t_type (error m) = ''Error''
   \<and> t_value (error m) = ''Error: '' @ m
   \<and> t_number (error m) = Finite 0
   \<and> t_list (error m) = []
   \<and> to_py (error m) = Inr (PExc ''FemscriptException'' Exception_t (''Error: '' @ m))
   \<and> to_py (error ''boom'') = Inr (PExc ''FemscriptException'' Exception_t ''Error: boom'')
   \<and> type_of (PExc ''FemscriptException'' Exception_t (''Error: '' @ m)) = FemscriptException_t"
  by (simp add: error_def FemscriptException_t_def)

text \<open>
  C7. \<^verbatim>\<open>fs_type\<close> gives every host value one of the eight tags; a value whose class
  is not a key of the table (the seven classes of \<^verbatim>\<open>types\<close> and \<^verbatim>\<open>int\<close>) gets
  \<^verbatim>\<open>PyObject\<close>; a float and an int both get \<^verbatim>\<open>Int\<close>.
\<close>

theorem fs_type_total:
  "fs_type obj \<in> {''Str'', ''Int'', ''Bool'', ''None'', ''List'', ''Bytes'', ''Scope'', ''PyObject''}
   \<and> (\<exists>!tag. fs_type obj = tag)
   \<and> (type_of obj \<notin> set (T_int # map snd types) \<longrightarrow> fs_type obj = ''PyObject'')
   \<and> fs_type (PFloat x) = ''Int''
   \<and> fs_type (PInt n) = ''Int''"
  by (simp add: fs_type_by_type types_def split: pytype.splits)

theorem fs_type_total_witness:
  "type_of (PObject ''Decimal'' T_object 7) \<notin> set (T_int # map snd types)
   \<and> fs_type (PObject ''Decimal'' T_object 7) = ''PyObject''"
  using fs_type_total [of "PObject ''Decimal'' T_object 7"] by (simp add: types_def)

section \<open>Properties of the script instance\<close>

lemma scan_None: "scan nm k vs = None \<longleftrightarrow> nm \<notin> fst ` set vs"
  by (induction vs arbitrary: k) auto

lemma scan_Some:
  "scan nm k vs = Some i \<Longrightarrow>
     k \<le> i \<and> i - k < length vs \<and> fst (vs ! (i - k)) = nm \<and> (\<forall>j < i - k. fst (vs ! j) \<noteq> nm)"
proof (induction vs arbitrary: k)
  case Nil
  then show ?case by simp
next
  case (Cons v vs)
  show ?case
  proof (cases "fst v = nm")
    case True
    with Cons.prems show ?thesis by simp
  next
    case False
    with Cons.prems have s: "scan nm (Suc k) vs = Some i" by simp
    from Cons.IH [OF s] have a: "Suc k \<le> i" "i - Suc k < length vs"
      "fst (vs ! (i - Suc k)) = nm" "\<forall>j < i - Suc k. fst (vs ! j) \<noteq> nm" by auto
    have e: "i - k = Suc (i - Suc k)" using a(1) by simp
    show ?thesis using a False unfolding e by (auto simp: nth_Cons split: nat.splits)
  qed
qed

lemma scan_finds:
  "nm \<in> fst ` set vs \<Longrightarrow>
     \<exists>i. scan nm 0 vs = Some i \<and> i < length vs \<and> fst (vs ! i) = nm \<and> (\<forall>j < i. fst (vs ! j) \<noteq> nm)"
proof -
  assume "nm \<in> fst ` set vs"
  then obtain i where s: "scan nm 0 vs = Some i"
    using scan_None [of nm 0 vs] by (cases "scan nm 0 vs") auto
  from scan_Some [OF s] show ?thesis using s by simp
qed

text \<open>
  C5. \<^verbatim>\<open>add_variable\<close> with a name that some entry has replaces the first such entry
  at its index: the length, the order of the names and every other entry are unchanged.
  With a new name it appends the variable, and the entries before it stay. From
  \<open>[a, b, c]\<close>, setting \<open>b\<close> gives \<open>[a, b', c]\<close> and then setting \<open>d\<close> gives
  \<open>[a, b', c, d]\<close>.
\<close>

theorem add_variable_in_place_or_append:
  fixes self :: "('ts, 'ast) femscript"
  shows "(n \<in> fst ` set (the_variables self) \<longrightarrow>
            (\<exists>i < length (the_variables self).
               fst (the_variables self ! i) = n
               \<and> (\<forall>j < i. fst (the_variables self ! j) \<noteq> n)
               \<and> the_variables (add_variable self (n, v)) = (the_variables self)[i := (n, v)]
               \<and> length (the_variables (add_variable self (n, v))) = length (the_variables self)
               \<and> map fst (the_variables (add_variable self (n, v))) = map fst (the_variables self)
               \<and> (\<forall>j < length (the_variables self). j \<noteq> i \<longrightarrow>
                     the_variables (add_variable self (n, v)) ! j = the_variables self ! j)))
         \<and> (n \<notin> fst ` set (the_variables self) \<longrightarrow>
              the_variables (add_variable self (n, v)) = the_variables self @ [(n, v)])
         \<and> the_variables (add_variable (self\<lparr>the_variables := [(''a'', x), (''b'', y), (''c'', z)]\<rparr>)
              (''b'', y')) = [(''a'', x), (''b'', y'), (''c'', z)]
         \<and> the_variables (add_variable (self\<lparr>the_variables := [(''a'', x), (''b'', y'), (''c'', z)]\<rparr>)
              (''d'', w)) = [(''a'', x), (''b'', y'), (''c'', z), (''d'', w)]"
proof -
  define vs where "vs = the_variables self"
  define vs' where "vs' = the_variables (add_variable self (n, v))"
  have found: "\<exists>i < length vs. fst (vs ! i) = n \<and> (\<forall>j < i. fst (vs ! j) \<noteq> n)
               \<and> vs' = vs[i := (n, v)] \<and> length vs' = length vs \<and> map fst vs' = map fst vs
               \<and> (\<forall>j < length vs. j \<noteq> i \<longrightarrow> vs' ! j = vs ! j)"
    if "n \<in> fst ` set vs"
  proof -
    from scan_finds [OF that] obtain i where i: "scan n 0 vs = Some i" "i < length vs"
      "fst (vs ! i) = n" "\<forall>j < i. fst (vs ! j) \<noteq> n" by blast
    have eq: "vs' = vs[i := (n, v)]"
      using i(1) by (simp add: vs'_def vs_def add_variable_def)
    have names: "map fst (vs[i := (n, v)]) = map fst vs"
      using i(2,3) by (simp add: map_update list_update_same_conv)
    show ?thesis
      using i eq names by (intro exI [of _ i]) simp
  qed
  have fresh: "vs' = vs @ [(n, v)]" if "n \<notin> fst ` set vs"
  proof -
    from that have "scan n 0 vs = None" by (simp add: scan_None)
    then show ?thesis by (simp add: vs'_def vs_def add_variable_def)
  qed
  have ex1: "the_variables (add_variable (self\<lparr>the_variables := [(''a'', x), (''b'', y), (''c'', z)]\<rparr>)
              (''b'', y')) = [(''a'', x), (''b'', y'), (''c'', z)]"
    by (simp add: add_variable_def)
  have ex2: "the_variables (add_variable (self\<lparr>the_variables := [(''a'', x), (''b'', y'), (''c'', z)]\<rparr>)
              (''d'', w)) = [(''a'', x), (''b'', y'), (''c'', z), (''d'', w)]"
    by (simp add: add_variable_def)
  show ?thesis
    using found fresh ex1 ex2 unfolding vs_def vs'_def by blast
qed

theorem add_variable_in_place_or_append_witness:
  "''b'' \<in> fst ` set [(''a'', error ''1''), (''b'', error ''2'')]
   \<and> ''c'' \<notin> fst ` set [(''a'', error ''1''), (''b'', error ''2'')]
   \<and> the_variables (add_variable
        (\<lparr>tokens = None, ast = None, the_variables = [(''a'', error ''1''), (''b'', error ''2'')],
          the_functions = [], the_modules = []\<rparr> :: (nat, nat) femscript) (''b'', error ''3''))
      = [(''a'', error ''1''), (''b'', error ''3'')]
   \<and> the_variables (add_variable
        (\<lparr>tokens = None, ast = None, the_variables = [(''a'', error ''1''), (''b'', error ''2'')],
          the_functions = [], the_modules = []\<rparr> :: (nat, nat) femscript) (''c'', error ''3''))
      = [(''a'', error ''1''), (''b'', error ''2''), (''c'', error ''3'')]"
  using add_variable_in_place_or_append [of "''b''"
      "\<lparr>tokens = None, ast = None, the_variables = [(''a'', error ''1''), (''b'', error ''2'')],
        the_functions = [], the_modules = []\<rparr> :: (nat, nat) femscript" "error ''3''"]
    add_variable_in_place_or_append [of "''c''"
      "\<lparr>tokens = None, ast = None, the_variables = [(''a'', error ''1''), (''b'', error ''2'')],
        the_functions = [], the_modules = []\<rparr> :: (nat, nat) femscript" "error ''3''"]
  by (simp add: add_variable_def)

lemma dict_set_fresh: "k \<notin> fst ` set d \<Longrightarrow> dict_set k v d = d @ [(k, v)]"
  by (induction d) auto

lemma variables_from_distinct:
  "distinct (map fst items) \<Longrightarrow> fst ` set items \<inter> fst ` set d = {} \<Longrightarrow>
     variables_from d items =
       (case to_py_items items of Inl e \<Rightarrow> Inl e | Inr kvs \<Rightarrow> Inr (d @ kvs))"
proof (induction items arbitrary: d)
  case Nil
  then show ?case by simp
next
  case (Cons item items)
  obtain n t where item: "item = (n, t)" by (cases item)
  show ?case
  proof (cases "to_py t")
    case (Inl e)
    then show ?thesis by (simp add: item)
  next
    case (Inr x)
    have fresh: "n \<notin> fst ` set d" using Cons.prems(2) by (auto simp: item)
    have d1: "distinct (map fst items)" using Cons.prems(1) by simp
    have d2: "fst ` set items \<inter> fst ` set (d @ [(n, x)]) = {}"
      using Cons.prems by (auto simp: item)
    show ?thesis
      using Cons.IH [OF d1 d2] Inr fresh
      by (simp add: item dict_set_fresh split: sum.splits)
  qed
qed

text \<open>
  C4. When the evaluator returns the result and the final scope \<open>S\<close> (a dict, so its names
  are distinct), \<^verbatim>\<open>execute\<close> returns \<^verbatim>\<open>to_py(result)\<close> and leaves as the binding list
  exactly the pairs of \<open>S\<close> in the order of \<open>S\<close>: a name bound before and absent from \<open>S\<close>
  is bound no more, and the \<^verbatim>\<open>variables\<close> property is \<open>S\<close> with every value decoded by
  \<^verbatim>\<open>to_py\<close>.
\<close>

theorem execute_replaces_variables:
  fixes eng :: "('ts, 'ast) engine" and self :: "('ts, 'ast) femscript"
  assumes "ast self = Some a"
    and "execute_ast eng a (the_variables self) (the_functions self) (the_modules self) debug
           = Inr (result, S)"
    and "distinct (map fst S)"
  shows "fst (execute eng self debug) = to_py result
         \<and> the_variables (snd (execute eng self debug)) = S
         \<and> (\<forall>n. n \<in> fst ` set (the_variables self) \<and> n \<notin> fst ` set S \<longrightarrow>
                n \<notin> fst ` set (the_variables (snd (execute eng self debug))))
         \<and> variables (snd (execute eng self debug)) = to_py_items S"
proof -
  have "map (\<lambda>(key, v). (key, v)) S = S" by (induction S) auto
  then have v: "the_variables (snd (execute eng self debug)) = S"
    and r: "fst (execute eng self debug) = to_py result"
    using assms(1,2) by (simp_all add: execute_def)
  have "variables (snd (execute eng self debug)) = variables_from [] S"
    by (simp add: variables_def v)
  also have "\<dots> = to_py_items S"
    using variables_from_distinct [OF assms(3), of "[]"] by (simp split: sum.splits)
  finally show ?thesis using v r by simp
qed

theorem execute_replaces_variables_witness:
  "fst (execute
      \<lparr>generate_tokens = (\<lambda>s. Inr s), generate_ast = (\<lambda>ts. Inr ts),
        execute_ast = (\<lambda>a vs fs ms dbg. Inr (error ''e'', [(''x'', error ''1'')]))\<rparr>
      \<lparr>tokens = Some ''p'', ast = Some ''p'', the_variables = [(''y'', error ''2'')],
        the_functions = [], the_modules = []\<rparr> False)
     = Inr (PExc ''FemscriptException'' Exception_t ''Error: e'')
   \<and> the_variables (snd (execute
      \<lparr>generate_tokens = (\<lambda>s. Inr s), generate_ast = (\<lambda>ts. Inr ts),
        execute_ast = (\<lambda>a vs fs ms dbg. Inr (error ''e'', [(''x'', error ''1'')]))\<rparr>
      \<lparr>tokens = Some ''p'', ast = Some ''p'', the_variables = [(''y'', error ''2'')],
        the_functions = [], the_modules = []\<rparr> False))
     = [(''x'', error ''1'')]
   \<and> variables (snd (execute
      \<lparr>generate_tokens = (\<lambda>s. Inr s), generate_ast = (\<lambda>ts. Inr ts),
        execute_ast = (\<lambda>a vs fs ms dbg. Inr (error ''e'', [(''x'', error ''1'')]))\<rparr>
      \<lparr>tokens = Some ''p'', ast = Some ''p'', the_variables = [(''y'', error ''2'')],
        the_functions = [], the_modules = []\<rparr> False))
     = Inr [(''x'', PExc ''FemscriptException'' Exception_t ''Error: 1'')]"
  using execute_replaces_variables [of
      "\<lparr>tokens = Some ''p'', ast = Some ''p'', the_variables = [(''y'', error ''2'')],
        the_functions = [], the_modules = []\<rparr>" "''p''"
      "\<lparr>generate_tokens = (\<lambda>s. Inr s), generate_ast = (\<lambda>ts. Inr ts),
        execute_ast = (\<lambda>a vs fs ms dbg. Inr (error ''e'', [(''x'', error ''1'')]))\<rparr>"
      False "error ''e''" "[(''x'', error ''1'')]"]
  by (simp add: error_def)

section \<open>Properties of the rendering\<close>

lemma repr_render:
  "repr atom v depth = (render_at atom depth v, depth)"
  "space = str_mul ''    '' depth \<Longrightarrow>
     Scope_lines atom space kvs depth = (render_entries_at atom depth kvs, depth)"
  "repr_list atom xs depth = (render_list_at atom depth xs, depth)"
  "repr_items atom kvs depth = (render_items_at atom depth kvs, depth)"
proof (induction atom v depth and atom space kvs depth and atom xs depth and atom kvs depth
    rule: repr_Scope_lines_repr_list_repr_items.induct)
qed (simp_all split: prod.splits)

lemma str_mul_step: "0 \<le> d \<Longrightarrow> str_mul s (d + 1) = s @ str_mul s d"
  by (simp add: str_mul_def nat_add_distrib)

text \<open>
  C9. \<^verbatim>\<open>Scope.__str__\<close> started with the counter at \<open>depth\<close> returns the counter at
  \<open>depth\<close> and the rendering in which every scope writes its entries one level deeper
  than its closing brace and renders a nested scope one level deeper than itself; one
  level is four spaces. Hence a scope nested in a scope is rendered as a scope started
  at \<open>depth + 1\<close>, and two scopes rendered one after the other are both rendered as from
  \<open>depth\<close>.
\<close>

theorem Scope_str_depth:
  "Scope_str atom kvs depth = (render_at atom depth (PScope kvs), depth)
   \<and> fst (Scope_str atom kvs depth) =
       ''{'' @ newline @ join newline (render_entries_at atom (depth + 1) kvs) @ newline
         @ str_mul ''    '' depth @ ''}''
   \<and> fst (Scope_str atom [(key, PScope inner)] depth) =
       ''{'' @ newline @ str_mul ''    '' (depth + 1) @ key @ '' = ''
         @ fst (Scope_str atom inner (depth + 1)) @ '';'' @ newline @ str_mul ''    '' depth @ ''}''
   \<and> (0 \<le> depth \<longrightarrow> str_mul ''    '' (depth + 1) = ''    '' @ str_mul ''    '' depth)
   \<and> (case Scope_str atom kvs depth of
         (s1, depth1) \<Rightarrow>
           (case Scope_str atom kvs' depth1 of
              (s2, depth2) \<Rightarrow>
                s1 = fst (Scope_str atom kvs depth) \<and> s2 = fst (Scope_str atom kvs' depth)
                \<and> depth2 = depth))"
  by (simp add: Scope_str_def repr_render(1) str_mul_step del: repr.simps)

theorem Scope_str_depth_witness:
  "(0::int) \<le> 0
   \<and> Scope_str (\<lambda>v. ''1'') [(''a'', PInt 1), (''b'', PScope [(''c'', PInt 1)])] 0
       = (''{'' @ newline @ ''    a = 1;'' @ newline
            @ ''    b = {'' @ newline @ ''        c = 1;'' @ newline @ ''    };'' @ newline @ ''}'', 0)"
  using Scope_str_depth [of "\<lambda>v. ''1''" "[(''a'', PInt 1), (''b'', PScope [(''c'', PInt 1)])]" 0]
  by (simp add: str_mul_def newline_def numeral_eq_Suc)

section \<open>The round trip through the codec\<close>

lemma float_of_int_representable:
  assumes "representable n"
  shows "float_of_int n = Inr (Finite (of_int n))"
proof -
  define a where "a = nat \<bar>n\<bar>"
  define e where "e = bit_length a - 53"
  have small: "\<not> (2::nat) ^ 1024 \<le> a"
  proof -
    have "int a < 2 ^ 1024" using assms by (simp add: representable_def a_def)
    then have "a < 2 ^ 1024" by (metis of_nat_less_iff of_nat_numeral of_nat_power)
    then show ?thesis by simp
  qed
  have r0: "a mod 2 ^ e = 0" using assms by (simp add: representable_def a_def e_def)
  have half: "(0::nat) < 2 ^ (e - 1)" by simp
  have whole: "a div 2 ^ e * 2 ^ e = a" using r0 by (simp add: mod_eq_0_iff_dvd)
  have sg: "sgn n * int a = n" by (simp add: a_def sgn_if)
  show ?thesis
    unfolding float_of_int_def Let_def a_def [symmetric] e_def [symmetric]
    using small half
    by (simp add: r0 whole sg)
qed

lemma bit_length_le: "a < 2 ^ k \<Longrightarrow> bit_length a \<le> k"
proof (induction k arbitrary: a)
  case 0
  then show ?case by (simp add: bit_length.simps)
next
  case (Suc k)
  show ?case
  proof (cases "a = 0")
    case True
    then show ?thesis by (simp add: bit_length.simps)
  next
    case False
    have "a div 2 < 2 ^ k" using Suc.prems by simp
    from Suc.IH [OF this] show ?thesis using False by (subst bit_length.simps) simp
  qed
qed

lemma small_representable:
  assumes "\<bar>n\<bar> \<le> 2 ^ 53"
  shows "representable n"
proof -
  define a where "a = nat \<bar>n\<bar>"
  have a: "a \<le> 2 ^ 53" using assms unfolding a_def by (simp add: nat_le_iff)
  have "(2::int) ^ 53 < 2 ^ 1024" by simp
  then have big: "\<bar>n\<bar> < 2 ^ 1024" using assms by linarith
  have "a mod 2 ^ (bit_length a - 53) = 0"
  proof (cases "a = 2 ^ 53")
    case True
    have "(2::nat) ^ 53 < 2 ^ 54" by simp
    then have "bit_length a \<le> 54" unfolding True by (rule bit_length_le)
    then have "bit_length a - 53 = 0 \<or> bit_length a - 53 = 1" by arith
    then show ?thesis unfolding True by auto
  next
    case False
    then have "a < 2 ^ 53" using a by simp
    then have "bit_length a \<le> 53" by (rule bit_length_le)
    then show ?thesis by simp
  qed
  then show ?thesis using big by (simp add: representable_def a_def)
qed

lemma str_contains_tags [simp]:
  "\<not> str_contains ''Str'' ''Error''" "\<not> str_contains ''Int'' ''Error''"
  "\<not> str_contains ''Bool'' ''Error''" "\<not> str_contains ''None'' ''Error''"
  "\<not> str_contains ''List'' ''Error''" "\<not> str_contains ''Bytes'' ''Error''"
  "\<not> str_contains ''Scope'' ''Error''" "\<not> str_contains ''PyObject'' ''Error''"
  by simp_all

lemma to_py_Int_token:
  "to_py (Token ''Int'' v x l b s p) = Inr (int_form (PFloat x))"
  by (cases x) simp_all

lemma roundtrip_plain:
  "plain v \<Longrightarrow> \<exists>t. to_fs v = Inr t \<and> to_py t = Inr (int_form v)"
  "plain_list xs \<Longrightarrow> \<exists>ts. to_fs_list xs = Inr ts \<and> to_py_list ts = Inr (int_form_list xs)"
proof (induction v and xs rule: plain_plain_list.induct)
  case (2 n)
  then have "float_of_int n = Inr (Finite (of_int n))"
    by (simp add: float_of_int_representable)
  then show ?case by (simp add: fs_type_by_type)
next
  case (3 x)
  show ?case by (simp add: fs_type_by_type to_py_Int_token del: to_py.simps int_form.simps)
next
  case (4 b)
  show ?case by (simp add: fs_type_by_type float_of_bool_def)
qed (auto simp: fs_type_by_type)

lemma int_form_integral_free:
  "integral_free v \<Longrightarrow> int_form v = v"
  "integral_free_list xs \<Longrightarrow> int_form_list xs = xs"
proof (induction v and xs rule: integral_free_integral_free_list.induct)
  case (1 x)
  then show ?case by (cases x) simp_all
qed simp_all

lemma roundtrip_PyObject:
  assumes "fs_type v = ''PyObject''"
  shows "to_fs v = Inr (Token ''PyObject'' [] (Finite 0) [] (Some []) NoScope (Some v))"
  using assms by (cases v) (simp_all add: fs_type_by_type Scope_t_def coroutine_t_def)

lemma bit_length_gt: "2 ^ k \<le> a \<Longrightarrow> k < bit_length a"
proof (induction k arbitrary: a)
  case 0
  then show ?case by (subst bit_length.simps) simp
next
  case (Suc k)
  then have "2 ^ k \<le> a div 2" by simp
  moreover have "a \<noteq> 0"
  proof
    assume "a = 0"
    with Suc.prems show False by simp
  qed
  ultimately show ?case using Suc.IH [of "a div 2"] by (subst bit_length.simps) simp
qed

lemma float_of_int_exact_only:
  assumes "float_of_int n = Inr (Finite (of_int n))"
  shows "representable n"
proof -
  define a where "a = nat \<bar>n\<bar>"
  define e where "e = bit_length a - 53"
  define q where "q = a div 2 ^ e"
  define q' where "q' = (if 2 ^ (e - 1) < a mod 2 ^ e \<or> (a mod 2 ^ e = 2 ^ (e - 1) \<and> odd q) then q + 1 else q)"
  show ?thesis
  proof (cases "bit_length a \<le> 53")
    case True
    have "a < 2 ^ 1024"
    proof (rule ccontr)
      assume "\<not> a < 2 ^ 1024"
      then have "2 ^ 1024 \<le> a" by simp
      from bit_length_gt [OF this] True show False by simp
    qed
    then have "int a < 2 ^ 1024" by (metis of_nat_less_iff of_nat_numeral of_nat_power)
    then show ?thesis using True by (simp add: representable_def a_def)
  next
    case False
    from assms False have ok: "\<not> 2 ^ 1024 \<le> q' * 2 ^ e"
      and val: "rat_of_int (sgn n * int (q' * 2 ^ e)) = rat_of_int n"
      unfolding float_of_int_def Let_def a_def [symmetric] e_def [symmetric] q_def [symmetric]
        q'_def [symmetric]
      by (auto split: if_splits)
    from val have "sgn n * int (q' * 2 ^ e) = n" by (simp only: of_int_eq_iff)
    then have "\<bar>sgn n * int (q' * 2 ^ e)\<bar> = \<bar>n\<bar>" by simp
    then have "int (q' * 2 ^ e) = \<bar>n\<bar> \<or> n = 0"
      by (cases "n = 0") (simp_all add: abs_mult abs_sgn_eq)
    moreover have "n \<noteq> 0" using False by (auto simp: a_def bit_length.simps)
    ultimately have "int (q' * 2 ^ e) = \<bar>n\<bar>" by simp
    then have "nat (int (q' * 2 ^ e)) = nat \<bar>n\<bar>" by (rule arg_cong)
    then have m: "q' * 2 ^ e = a" unfolding a_def by (simp only: nat_int)
    then have "a mod 2 ^ e = 0" by (metis mod_mult_self2_is_0)
    moreover have "int a < 2 ^ 1024"
    proof -
      have "a < 2 ^ 1024" using ok m by simp
      then show ?thesis by (metis of_nat_less_iff of_nat_numeral of_nat_power)
    qed
    ultimately show ?thesis by (simp add: representable_def a_def e_def)
  qed
qed

lemma bit_length_above: "bit_length 9007199254740993 = 54"
  by (simp add: bit_length.simps)

lemma float_of_int_above: "float_of_int 9007199254740993 = Inr (Finite 9007199254740992)"
  unfolding float_of_int_def Let_def by (simp add: bit_length_above)

lemma floor_three_halves: "\<lfloor>3 / 2 :: rat\<rfloor> = 1"
  by (rule floor_unique) simp_all

text \<open>
  C1. A value built from strings, ints that a double holds exactly (every int up to
  \<open>2 ^ 53\<close> in magnitude is one), floats, booleans, \<^verbatim>\<open>None\<close>, byte strings and lists of
  these is encoded by \<^verbatim>\<open>to_fs\<close> and decoded by \<^verbatim>\<open>to_py\<close> to itself, with every integral
  float written as the int of the same number, and to itself exactly when it holds no
  integral float. An int comes back as itself only when a double holds it exactly. A value
  that \<^verbatim>\<open>fs_type\<close> tags \<^verbatim>\<open>PyObject\<close> is stored in the token as it is and comes back as
  it is.
\<close>

theorem to_py_to_fs_roundtrip:
  "(plain v \<longrightarrow> to_py_to_fs v = Inr (int_form v))
   \<and> (plain v \<and> integral_free v \<longrightarrow> to_py_to_fs v = Inr v)
   \<and> (\<bar>n\<bar> \<le> 2 ^ 53 \<longrightarrow> representable n)
   \<and> (to_py_to_fs (PInt n) = Inr (PInt n) \<longleftrightarrow> representable n)
   \<and> to_py_to_fs (PFloat (Finite (of_int k))) = Inr (PInt k)
   \<and> (fs_type v = ''PyObject'' \<longrightarrow>
        to_fs v = Inr (Token ''PyObject'' [] (Finite 0) [] (Some []) NoScope (Some v))
        \<and> to_py_to_fs v = Inr v)"
proof -
  have a: "to_py_to_fs v = Inr (int_form v)" if "plain v"
    using roundtrip_plain(1) [OF that] by (auto simp: to_py_to_fs_def)
  have b: "to_py_to_fs v = Inr v" if "plain v" "integral_free v"
    using a [OF that(1)] int_form_integral_free(1) [OF that(2)] by simp
  have c: "to_py_to_fs (PInt n) = Inr (PInt n) \<longleftrightarrow> representable n"
  proof
    assume "representable n"
    then have "plain (PInt n)" by simp
    from roundtrip_plain(1) [OF this] show "to_py_to_fs (PInt n) = Inr (PInt n)"
      by (auto simp: to_py_to_fs_def)
  next
    assume r: "to_py_to_fs (PInt n) = Inr (PInt n)"
    then obtain x where x: "float_of_int n = Inr x"
      by (cases "float_of_int n") (auto simp: to_py_to_fs_def)
    with r have "int_form (PFloat x) = PInt n"
      by (simp add: to_py_to_fs_def fs_type_by_type to_py_Int_token del: to_py.simps int_form.simps)
    then have "x = Finite (of_int n)"
      by (cases x) (auto split: if_splits)
    with x show "representable n" by (simp add: float_of_int_exact_only)
  qed
  have d: "to_py_to_fs (PFloat (Finite (of_int k))) = Inr (PInt k)"
    by (simp add: to_py_to_fs_def fs_type_by_type)
  have e: "to_py_to_fs v = Inr v" if "fs_type v = ''PyObject''"
    using roundtrip_PyObject [OF that] by (simp add: to_py_to_fs_def)
  show ?thesis
    using a b c d e roundtrip_PyObject small_representable by blast
qed

theorem to_py_to_fs_roundtrip_witness:
  "plain (PList [PStr ''a'', PInt 3, PFloat (Finite 2), PFloat (Finite (3 / 2)), PBool True, PNone, PBytes [1]])
   \<and> to_py_to_fs (PList [PStr ''a'', PInt 3, PFloat (Finite 2), PFloat (Finite (3 / 2)), PBool True, PNone, PBytes [1]])
       = Inr (PList [PStr ''a'', PInt 3, PInt 2, PFloat (Finite (3 / 2)), PBool True, PNone, PBytes [1]])
   \<and> \<bar>3::int\<bar> \<le> 2 ^ 53
   \<and> fs_type (PObject ''Decimal'' T_object 7) = ''PyObject''
   \<and> to_py_to_fs (PObject ''Decimal'' T_object 7) = Inr (PObject ''Decimal'' T_object 7)"
  using to_py_to_fs_roundtrip [of "PList [PStr ''a'', PInt 3, PFloat (Finite 2), PFloat (Finite (3 / 2)), PBool True, PNone, PBytes [1]]" 3]
    to_py_to_fs_roundtrip [of "PObject ''Decimal'' T_object 7" 3]
  by (simp add: fs_type_by_type floor_three_halves)

text \<open>
  C1 as stated fails on an int that no double holds, which comes back as the nearest
  double's int, and on every dict, whose token \<^verbatim>\<open>to_py\<close> cannot read.
\<close>

theorem to_py_to_fs_counterexample:
  "to_py_to_fs (PInt (2 ^ 53 + 1)) = Inr (PInt (2 ^ 53))
   \<and> PInt (2 ^ 53) \<noteq> PInt (2 ^ 53 + 1)
   \<and> to_py_to_fs (PDict [(''a'', PInt 1)])
       = Inl (AttributeError ''list object has no attribute items'')"
proof -
  have r1: "representable 1" by (rule small_representable) simp
  show ?thesis
    by (simp add: to_py_to_fs_def float_of_int_above fs_type_by_type float_of_int_representable [OF r1])
qed

section \<open>Decoding tokens\<close>

lemma math_floor_integer: "is_integer n \<Longrightarrow> \<exists>k. math_floor n = Inr k"
  by (cases n) simp_all

lemma to_py_Int_returns: "\<exists>x. to_py (Token ''Int'' v n l b s p) = Inr x"
  by (simp add: to_py_Int_token del: to_py.simps int_form.simps)

lemma to_py_decodable:
  "decodable t \<Longrightarrow> \<exists>v. to_py t = Inr v"
  "decodable_list ts \<Longrightarrow> \<exists>vs. to_py_list ts = Inr vs"
  "decodable_items nts \<Longrightarrow> \<exists>kvs. to_py_items nts = Inr kvs"
  "decodable_scope s \<Longrightarrow> \<exists>kvs. to_py_scope s = Inr (PScope kvs)"
proof (induction t and ts and nts and s
    rule: decodable_decodable_list_decodable_items_decodable_scope.induct)
  case (1 ty v n l b s p)
  show ?case
  proof (cases "str_contains ty ''Error''")
    case True
    then show ?thesis by simp
  next
    case noerr: False
    consider (List) "ty = ''List''" | (Bytes) "ty = ''Bytes''" | (Scope) "ty = ''Scope''"
      | (PyObject) "ty = ''PyObject''" | (Int) "ty = ''Int''"
      | (other) "ty \<noteq> ''List''" "ty \<noteq> ''Bytes''" "ty \<noteq> ''Scope''" "ty \<noteq> ''PyObject''" "ty \<noteq> ''Int''"
      by blast
    then show ?thesis
    proof cases
      case List
      with "1.prems" have "decodable_list l" by simp
      from "1.IH"(1) [OF noerr List this] show ?thesis using List by auto
    next
      case Bytes
      with "1.prems" show ?thesis by auto
    next
      case Scope
      with "1.prems" have "decodable_scope s" by simp
      from "1.IH"(2) [OF noerr _ _ Scope this] show ?thesis using Scope by auto
    next
      case PyObject
      with "1.prems" show ?thesis by auto
    next
      case Int
      show ?thesis unfolding Int by (rule to_py_Int_returns)
    next
      case other
      with noerr show ?thesis by simp
    qed
  qed
next
  case (3 t ts)
  then show ?case by auto
next
  case (5 name t nts)
  then show ?case by auto
qed auto

lemma to_py_only_decodable:
  "to_py t = Inr v \<Longrightarrow> decodable t"
  "to_py_list ts = Inr vs \<Longrightarrow> decodable_list ts"
  "to_py_items nts = Inr kvs \<Longrightarrow> decodable_items nts"
  "to_py_scope s = Inr v \<Longrightarrow> decodable_scope s"
proof (induction t and ts and nts and s arbitrary: v and vs and kvs and v
    rule: decodable_decodable_list_decodable_items_decodable_scope.induct)
  case (1 ty v' n l b s p)
  show ?case
  proof (cases "str_contains ty ''Error''")
    case True
    then show ?thesis by simp
  next
    case noerr: False
    consider (List) "ty = ''List''" | (Bytes) "ty = ''Bytes''" | (Scope) "ty = ''Scope''"
      | (PyObject) "ty = ''PyObject''"
      | (other) "ty \<noteq> ''List''" "ty \<noteq> ''Bytes''" "ty \<noteq> ''Scope''" "ty \<noteq> ''PyObject''"
      by blast
    then show ?thesis
    proof cases
      case List
      with "1.prems" obtain xs where "to_py_list l = Inr xs"
        by (cases "to_py_list l") auto
      from "1.IH"(1) [OF noerr List this] show ?thesis using List by simp
    next
      case Bytes
      with "1.prems" show ?thesis by (cases b) auto
    next
      case Scope
      with "1.prems" have "to_py_scope s = Inr v" by simp
      from "1.IH"(2) [OF noerr _ _ Scope this] show ?thesis using Scope by simp
    next
      case PyObject
      with "1.prems" show ?thesis by (cases p) auto
    next
      case other
      with noerr show ?thesis by simp
    qed
  qed
qed (auto split: sum.splits)

lemma to_py_Scope_token:
  assumes "t_type s = ''Scope''" and "decodable s"
  shows "\<exists>kvs. to_py s = Inr (PScope kvs)"
proof -
  obtain ty v n l b sc p where s: "s = Token ty v n l b sc p" by (cases s)
  with assms have "decodable_scope sc" by simp
  from to_py_decodable(4) [OF this] show ?thesis using assms(1) by (simp add: s)
qed

lemma mro_Scope: "mro Scope_t = [Scope_t, T_dict, T_object]"
  by (simp add: Scope_t_def)

text \<open>
  C10. \<^verbatim>\<open>fs_type\<close> looks the exact class up: a value whose class is a proper subclass of
  a class of the table and is not itself in the table is tagged \<^verbatim>\<open>PyObject\<close>, not as
  its parent. \<^verbatim>\<open>Scope\<close> is such a class (a proper subclass of \<^verbatim>\<open>dict\<close>). So for every
  token tagged \<^verbatim>\<open>Scope\<close> that \<^verbatim>\<open>to_py\<close> decodes (its \<^verbatim>\<open>scope\<close> entry is missing, or
  a mapping whose tokens decode), \<^verbatim>\<open>to_py\<close> returns a \<^verbatim>\<open>Scope\<close> and \<^verbatim>\<open>to_fs\<close> of it is
  a token tagged \<^verbatim>\<open>PyObject\<close> that holds it.
\<close>

theorem fs_type_exact_class:
  "(proper_subclass (type_of v) c \<and> c \<in> set (T_int # map snd types)
      \<and> type_of v \<notin> set (T_int # map snd types) \<longrightarrow> fs_type v = ''PyObject'')
   \<and> proper_subclass Scope_t T_dict
   \<and> type_of (PScope kvs) = Scope_t
   \<and> fs_type (PScope kvs) = ''PyObject''
   \<and> fs_type (PDict kvs) = ''Scope''
   \<and> (t_type s = ''Scope'' \<and> decodable s \<longrightarrow>
        (\<exists>kvs'. to_py s = Inr (PScope kvs')
           \<and> to_fs (PScope kvs')
               = Inr (Token ''PyObject'' [] (Finite 0) [] (Some []) NoScope (Some (PScope kvs')))))"
proof -
  have a: "fs_type v = ''PyObject''" if "type_of v \<notin> set (T_int # map snd types)"
    using that by (simp add: fs_type_by_type types_def split: pytype.splits)
  have b: "proper_subclass Scope_t T_dict"
    by (simp add: proper_subclass_def issubclass_def mro_Scope) (simp add: Scope_t_def)
  have c: "fs_type (PScope kvs) = ''PyObject''" for kvs
    by (simp add: fs_type_by_type Scope_t_def)
  have d: "\<exists>kvs'. to_py s = Inr (PScope kvs')
           \<and> to_fs (PScope kvs')
               = Inr (Token ''PyObject'' [] (Finite 0) [] (Some []) NoScope (Some (PScope kvs')))"
    if "t_type s = ''Scope''" "decodable s"
    using to_py_Scope_token [OF that] c by auto
  show ?thesis
    using a b c d by (simp add: fs_type_by_type)
qed

theorem fs_type_exact_class_witness:
  "proper_subclass (type_of (PObject ''OrderedDict'' T_dict 3)) T_dict
   \<and> T_dict \<in> set (T_int # map snd types)
   \<and> type_of (PObject ''OrderedDict'' T_dict 3) \<notin> set (T_int # map snd types)
   \<and> fs_type (PObject ''OrderedDict'' T_dict 3) = ''PyObject''
   \<and> decodable (Token ''Scope'' [] (Finite 0) [] (Some [])
        (ScopeItems [(''a'', Token ''Int'' [] (Finite 1) [] (Some []) NoScope None)]) None)
   \<and> to_py (Token ''Scope'' [] (Finite 0) [] (Some [])
        (ScopeItems [(''a'', Token ''Int'' [] (Finite 1) [] (Some []) NoScope None)]) None)
       = Inr (PScope [(''a'', PInt 1)])
   \<and> to_fs (PScope [(''a'', PInt 1)])
       = Inr (Token ''PyObject'' [] (Finite 0) [] (Some []) NoScope (Some (PScope [(''a'', PInt 1)])))"
  using fs_type_exact_class [where v = "PObject ''OrderedDict'' T_dict 3" and c = T_dict
      and s = "Token ''Scope'' [] (Finite 0) [] (Some [])
        (ScopeItems [(''a'', Token ''Int'' [] (Finite 1) [] (Some []) NoScope None)]) None"]
  by (simp add: proper_subclass_def issubclass_def types_def dict_of_def)

text \<open>
  C10 as stated fails twice. \<^verbatim>\<open>bool\<close> is a proper subclass of \<^verbatim>\<open>int\<close>, a class of the
  table, and \<^verbatim>\<open>True\<close> is tagged \<^verbatim>\<open>Bool\<close>. The token that \<^verbatim>\<open>to_fs\<close> builds for a dict
  is tagged \<^verbatim>\<open>Scope\<close>, and \<^verbatim>\<open>to_py\<close> raises on it, so there is nothing to encode again.
\<close>

theorem fs_type_exact_class_counterexample:
  "proper_subclass (type_of (PBool True)) T_int
   \<and> T_int \<in> set (T_int # map snd types)
   \<and> fs_type (PBool True) = ''Bool''
   \<and> to_fs (PDict []) = Inr (Token ''Scope'' [] (Finite 0) [] (Some []) (ScopeVariables []) None)
   \<and> to_py (Token ''Scope'' [] (Finite 0) [] (Some []) (ScopeVariables []) None)
       = Inl (AttributeError ''list object has no attribute items'')"
  by (simp add: proper_subclass_def issubclass_def fs_type_by_type)

section \<open>Properties of the function adapter\<close>

lemma dict_of_from:
  "distinct (map fst kvs) \<Longrightarrow> fst ` set kvs \<inter> fst ` set d = {} \<Longrightarrow>
     foldl (\<lambda>d (k, v). dict_set k v d) d kvs = d @ kvs"
proof (induction kvs arbitrary: d)
  case Nil
  then show ?case by simp
next
  case (Cons kv kvs)
  obtain k v where kv: "kv = (k, v)" by (cases kv)
  have fresh: "k \<notin> fst ` set d" using Cons.prems(2) by (auto simp: kv)
  have d1: "distinct (map fst kvs)" using Cons.prems(1) by simp
  have d2: "fst ` set kvs \<inter> fst ` set (d @ [(k, v)]) = {}"
    using Cons.prems by (auto simp: kv)
  show ?case
    using Cons.IH [OF d1 d2] by (simp add: kv dict_set_fresh [OF fresh])
qed

lemma dict_of_distinct: "distinct (map fst kvs) \<Longrightarrow> dict_of kvs = kvs"
  using dict_of_from [of kvs "[]"] by (simp add: dict_of_def)

lemma to_py_items_names: "to_py_items nts = Inr kvs \<Longrightarrow> map fst kvs = map fst nts"
proof (induction nts arbitrary: kvs)
  case Nil
  then show ?case by simp
next
  case (Cons nt nts)
  obtain n t where nt: "nt = (n, t)" by (cases nt)
  from Cons.prems obtain x kvs' where "to_py t = Inr x" "to_py_items nts = Inr kvs'"
    "kvs = (n, x) # kvs'"
    by (auto simp: nt split: sum.splits)
  with Cons.IH [of kvs'] show ?case by (simp add: nt)
qed

lemma to_py_list_nth:
  "to_py_list ts = Inr xs \<Longrightarrow>
     length xs = length ts \<and> (\<forall>i < length ts. to_py (ts ! i) = Inr (xs ! i))"
proof (induction ts arbitrary: xs)
  case Nil
  then show ?case by simp
next
  case (Cons t ts)
  from Cons.prems obtain x xs' where p: "to_py t = Inr x" "to_py_list ts = Inr xs'"
    "xs = x # xs'"
    by (auto split: sum.splits)
  from Cons.IH [OF p(2)] p(1,3) show ?case by (auto simp: nth_Cons split: nat.splits)
qed

lemma Scope_token_keywords:
  assumes "t_type s = ''Scope''" and "decodable s"
  shows "\<exists>kw. to_py s = Inr (PScope kw)
           \<and> (\<forall>nts. t_scope s = ScopeItems nts \<and> distinct (map fst nts) \<longrightarrow>
                  to_py_items nts = Inr kw)"
proof -
  obtain ty v n l b sc p where s: "s = Token ty v n l b sc p" by (cases s)
  from assms have ty: "ty = ''Scope''" and dec: "decodable_scope sc" by (simp_all add: s)
  have py: "to_py s = to_py_scope sc" by (simp add: s ty)
  show ?thesis
  proof (cases sc)
    case NoScope
    then show ?thesis unfolding py by (simp add: s)
  next
    case ScopeNone
    with dec show ?thesis by simp
  next
    case (ScopeVariables vars)
    with dec show ?thesis by simp
  next
    case (ScopeItems nts)
    with dec have "decodable_items nts" by simp
    from to_py_decodable(3) [OF this] obtain kvs where kvs: "to_py_items nts = Inr kvs" ..
    have "dict_of kvs = kvs" if "distinct (map fst nts)"
      using that to_py_items_names [OF kvs] by (simp add: dict_of_distinct)
    then show ?thesis unfolding py by (auto simp: s ScopeItems kvs)
  qed
qed

text \<open>
  C2. The wrapper that \<^verbatim>\<open>wrap_function\<close> appends and returns runs the \<^verbatim>\<open>try\<close> body
  (inside a coroutine when the callable is a coroutine function). For a single token
  tagged \<^verbatim>\<open>Scope\<close> that \<^verbatim>\<open>to_py\<close> decodes (its \<^verbatim>\<open>scope\<close> entry is missing or a
  mapping whose tokens decode), the callable is called with the decoded entries of the
  scope as keyword arguments; for a tuple of tokens that \<^verbatim>\<open>to_py\<close> decodes, it is called
  with the decoded tokens as positional arguments, in order. The call name is put first
  exactly when \<^verbatim>\<open>with_name\<close> is \<^verbatim>\<open>True\<close>. The scope \<open>{a: 1, b: 2}\<close> gives the keywords
  \<open>a = 1\<close>, \<open>b = 2\<close>.
\<close>

theorem wrapper_argument_shapes:
  fixes self :: "('ts, 'ast) femscript"
  shows
  "(t_type s = ''Scope'' \<and> decodable s \<longrightarrow>
      (\<exists>kw. to_py s = Inr (PScope kw)
         \<and> (\<forall>nts. t_scope s = ScopeItems nts \<and> distinct (map fst nts) \<longrightarrow>
                to_py_items nts = Inr kw)
         \<and> call_arguments with_name name (ArgsToken s) = Inr (call_name with_name name, kw)))
   \<and> (decodable_list ts \<longrightarrow>
      (\<exists>xs. to_py_list ts = Inr xs \<and> length xs = length ts
         \<and> (\<forall>i < length ts. to_py (ts ! i) = Inr (xs ! i))
         \<and> call_arguments with_name name (ArgsTuple ts) = Inr (call_name with_name name @ xs, [])))
   \<and> call_name with_name name = (if with_name = Some True then [PStr name] else [])
   \<and> (call_arguments with_name name args = Inr (pos, kw') \<longrightarrow>
        try_body with_name func name args
          = (case call func pos kw' of Inl e \<Rightarrow> Inl e | Inr r \<Rightarrow> to_fs r))
   \<and> wrapper with_name func name args scope
       = (if iscoroutinefunction func
          then Inr (Token ''PyObject'' [] (Finite 0) [] (Some []) NoScope
                 (Some (PCoroutine (except_FemscriptException (try_body with_name func name args)))))
          else except_FemscriptException (try_body with_name func name args))
   \<and> fst (wrap_function self func func_name with_name) = wrapper with_name func
   \<and> call_arguments with_name name
        (ArgsToken (Token ''Scope'' [] (Finite 0) [] (Some [])
           (ScopeItems [(''a'', Token ''Int'' [] (Finite 1) [] (Some []) NoScope None),
                        (''b'', Token ''Int'' [] (Finite 2) [] (Some []) NoScope None)]) None))
       = Inr (call_name with_name name, [(''a'', PInt 1), (''b'', PInt 2)])"
proof -
  have a: "\<exists>kw. to_py s = Inr (PScope kw)
         \<and> (\<forall>nts. t_scope s = ScopeItems nts \<and> distinct (map fst nts) \<longrightarrow>
                to_py_items nts = Inr kw)
         \<and> call_arguments with_name name (ArgsToken s) = Inr (call_name with_name name, kw)"
    if "t_type s = ''Scope''" "decodable s"
  proof -
    from Scope_token_keywords [OF that] obtain kw where kw: "to_py s = Inr (PScope kw)"
      "\<forall>nts. t_scope s = ScopeItems nts \<and> distinct (map fst nts) \<longrightarrow> to_py_items nts = Inr kw"
      by blast
    have "call_arguments with_name name (ArgsToken s) = Inr (call_name with_name name, kw)"
      using that(1) kw(1) by (simp add: call_arguments_def)
    with kw show ?thesis by blast
  qed
  have b: "\<exists>xs. to_py_list ts = Inr xs \<and> length xs = length ts
         \<and> (\<forall>i < length ts. to_py (ts ! i) = Inr (xs ! i))
         \<and> call_arguments with_name name (ArgsTuple ts) = Inr (call_name with_name name @ xs, [])"
    if "decodable_list ts"
  proof -
    from to_py_decodable(2) [OF that] obtain xs where xs: "to_py_list ts = Inr xs" ..
    have "call_arguments with_name name (ArgsTuple ts) = Inr (call_name with_name name @ xs, [])"
      using xs by (simp add: call_arguments_def)
    with xs to_py_list_nth [OF xs] show ?thesis by blast
  qed
  have c: "call_name with_name name = (if with_name = Some True then [PStr name] else [])"
    by (simp add: call_name_def)
  have d: "try_body with_name func name args
          = (case call func pos kw' of Inl e \<Rightarrow> Inl e | Inr r \<Rightarrow> to_fs r)"
    if "call_arguments with_name name args = Inr (pos, kw')"
    using that by (simp add: try_body_def)
  have e: "wrapper with_name func name args scope
       = (if iscoroutinefunction func
          then Inr (Token ''PyObject'' [] (Finite 0) [] (Some []) NoScope
                 (Some (PCoroutine (except_FemscriptException (try_body with_name func name args)))))
          else except_FemscriptException (try_body with_name func name args))"
    by (simp add: wrapper_def fs_type_by_type coroutine_t_def)
  have f: "fst (wrap_function self func func_name with_name) = wrapper with_name func"
    by (simp add: wrap_function_def Let_def)
  have g: "call_arguments with_name name
        (ArgsToken (Token ''Scope'' [] (Finite 0) [] (Some [])
           (ScopeItems [(''a'', Token ''Int'' [] (Finite 1) [] (Some []) NoScope None),
                        (''b'', Token ''Int'' [] (Finite 2) [] (Some []) NoScope None)]) None))
       = Inr (call_name with_name name, [(''a'', PInt 1), (''b'', PInt 2)])"
    by (simp add: call_arguments_def dict_of_def)
  show ?thesis
    using a b c d e f g by blast
qed

lemma to_fs_small_int:
  "\<bar>n\<bar> \<le> 2 ^ 53 \<Longrightarrow> to_fs (PInt n) = Inr (Token ''Int'' [] (Finite (of_int n)) [] (Some []) NoScope None)"
  by (simp add: float_of_int_representable small_representable fs_type_by_type)

theorem wrapper_argument_shapes_witness:
  "t_type (Token ''Scope'' [] (Finite 0) [] (Some [])
      (ScopeItems [(''a'', Token ''Int'' [] (Finite 1) [] (Some []) NoScope None),
                   (''b'', Token ''Int'' [] (Finite 2) [] (Some []) NoScope None)]) None) = ''Scope''
   \<and> decodable (Token ''Scope'' [] (Finite 0) [] (Some [])
      (ScopeItems [(''a'', Token ''Int'' [] (Finite 1) [] (Some []) NoScope None),
                   (''b'', Token ''Int'' [] (Finite 2) [] (Some []) NoScope None)]) None)
   \<and> decodable_list [Token ''Int'' [] (Finite 3) [] (Some []) NoScope None,
                      Token ''Int'' [] (Finite 4) [] (Some []) NoScope None]
   \<and> call_arguments (Some True) ''f''
        (ArgsToken (Token ''Scope'' [] (Finite 0) [] (Some [])
           (ScopeItems [(''a'', Token ''Int'' [] (Finite 1) [] (Some []) NoScope None),
                        (''b'', Token ''Int'' [] (Finite 2) [] (Some []) NoScope None)]) None))
       = Inr ([PStr ''f''], [(''a'', PInt 1), (''b'', PInt 2)])
   \<and> call_arguments (Some True) ''f''
        (ArgsTuple [Token ''Int'' [] (Finite 3) [] (Some []) NoScope None,
                    Token ''Int'' [] (Finite 4) [] (Some []) NoScope None])
       = Inr ([PStr ''f'', PInt 3, PInt 4], [])
   \<and> wrapper (Some True) (Callable ''f'' False (\<lambda>pos kw. Inr (PList (pos @ [PScope kw])))) ''f''
        (ArgsToken (Token ''Scope'' [] (Finite 0) [] (Some [])
           (ScopeItems [(''a'', Token ''Int'' [] (Finite 1) [] (Some []) NoScope None),
                        (''b'', Token ''Int'' [] (Finite 2) [] (Some []) NoScope None)]) None)) []
       = Inr (Token ''List'' [] (Finite 0)
               [Token ''Str'' ''f'' (Finite 0) [] (Some []) NoScope None,
                Token ''PyObject'' [] (Finite 0) [] (Some []) NoScope
                  (Some (PScope [(''a'', PInt 1), (''b'', PInt 2)]))]
               (Some []) NoScope None)"
  using wrapper_argument_shapes [where with_name = "Some True" and name = "''f''"
      and s = "Token ''Scope'' [] (Finite 0) [] (Some [])
           (ScopeItems [(''a'', Token ''Int'' [] (Finite 1) [] (Some []) NoScope None),
                        (''b'', Token ''Int'' [] (Finite 2) [] (Some []) NoScope None)]) None"
      and ts = "[Token ''Int'' [] (Finite 3) [] (Some []) NoScope None,
                 Token ''Int'' [] (Finite 4) [] (Some []) NoScope None]"
      and func = "Callable ''f'' False (\<lambda>pos kw. Inr (PList (pos @ [PScope kw])))"
      and args = "ArgsToken (Token ''Scope'' [] (Finite 0) [] (Some [])
           (ScopeItems [(''a'', Token ''Int'' [] (Finite 1) [] (Some []) NoScope None),
                        (''b'', Token ''Int'' [] (Finite 2) [] (Some []) NoScope None)]) None)"
      and pos = "[PStr ''f'']" and kw' = "[(''a'', PInt 1), (''b'', PInt 2)]" and scope = "[]"
      and func_name = None
      and self = "\<lparr>tokens = None, ast = None, the_variables = [], the_functions = [],
        the_modules = []\<rparr> :: (nat, nat) femscript"]
  by (simp add: call_arguments_def call_name_def dict_of_def try_body_def wrapper_def
      except_FemscriptException_def fs_type_by_type Scope_t_def)

text \<open>
  C2 as stated fails on the token that \<^verbatim>\<open>to_fs\<close> builds for the dict \<open>{a: 1, b: 2}\<close>:
  its \<^verbatim>\<open>scope\<close> entry is a list of variables, \<^verbatim>\<open>to_py\<close> raises AttributeError, which
  the wrapper does not catch, and the callable is not called. It fails as well on a list
  of tokens, which is not a tuple and has no string index.
\<close>

theorem wrapper_argument_shapes_counterexample:
  "to_fs (PDict [(''a'', PInt 1), (''b'', PInt 2)])
     = Inr (Token ''Scope'' [] (Finite 0) [] (Some [])
         (ScopeVariables [(''a'', Token ''Int'' [] (Finite 1) [] (Some []) NoScope None),
                          (''b'', Token ''Int'' [] (Finite 2) [] (Some []) NoScope None)]) None)
   \<and> wrapper None (Callable ''f'' False (\<lambda>pos kw. Inr (PDict kw))) ''f''
        (ArgsToken (Token ''Scope'' [] (Finite 0) [] (Some [])
           (ScopeVariables [(''a'', Token ''Int'' [] (Finite 1) [] (Some []) NoScope None),
                            (''b'', Token ''Int'' [] (Finite 2) [] (Some []) NoScope None)]) None)) []
       = Inl (AttributeError ''list object has no attribute items'')
   \<and> wrapper None (Callable ''f'' False (\<lambda>pos kw. Inr (PList pos))) ''f''
        (ArgsList [Token ''Int'' [] (Finite 3) [] (Some []) NoScope None,
                   Token ''Int'' [] (Finite 4) [] (Some []) NoScope None]) []
       = Inl (TypeError ''list indices must be integers or slices, not str'')"
proof -
  have n: "\<not> issubclass (exn_type (AttributeError x)) FemscriptException_t"
    "\<not> issubclass (exn_type (TypeError x)) FemscriptException_t" for x
    by (simp_all add: issubclass_def AttributeError_def TypeError_def FemscriptException_t_def
        Exception_t_def BaseException_t_def)
  have i1: "\<bar>1::int\<bar> \<le> 2 ^ 53" and i2: "\<bar>2::int\<bar> \<le> 2 ^ 53" by simp_all
  show ?thesis
    using to_fs_small_int [OF i1] to_fs_small_int [OF i2] n
    by (simp add: wrapper_def try_body_def call_arguments_def except_FemscriptException_def
        fs_type_by_type)
qed

section \<open>Exceptions of the callable\<close>

lemma issubclass_refl: "issubclass c c"
  by (cases c) (simp_all add: issubclass_def)

text \<open>
  C3, for the callables that are not coroutine functions. When the wrapper of such a
  callable has decoded the arguments and the call raises \<^verbatim>\<open>FemscriptException\<close> with
  message \<open>m\<close> (or an instance of a subclass), the wrapper returns the token
  \<^verbatim>\<open>error(m)\<close>, tagged \<^verbatim>\<open>Error\<close> with the payload \<^verbatim>\<open>"Error: " + m\<close>, and raises
  nothing. When the call raises an exception of any other class, the wrapper raises that
  exception. The wrapper of a coroutine function returns neither: it returns the token
  tagged \<^verbatim>\<open>PyObject\<close> of a coroutine, and it is the coroutine, when awaited, that
  returns \<^verbatim>\<open>error(m)\<close> or raises the other exception.
\<close>

theorem wrapper_contains_FemscriptException:
  "(\<not> iscoroutinefunction func \<and> call_arguments with_name name args = Inr (pos, kw)
      \<and> call func pos kw = Inl (Exn FemscriptException_t m) \<longrightarrow>
        wrapper with_name func name args scope = Inr (error m))
   \<and> (\<not> iscoroutinefunction func \<and> call_arguments with_name name args = Inr (pos, kw)
      \<and> call func pos kw = Inl exc \<and> issubclass (exn_type exc) FemscriptException_t \<longrightarrow>
        wrapper with_name func name args scope = Inr (error (exn_str exc)))
   \<and> (\<not> iscoroutinefunction func \<and> call_arguments with_name name args = Inr (pos, kw)
      \<and> call func pos kw = Inl exc \<and> \<not> issubclass (exn_type exc) FemscriptException_t \<longrightarrow>
        wrapper with_name func name args scope = Inl exc)
   \<and> (iscoroutinefunction func \<and> call_arguments with_name name args = Inr (pos, kw)
      \<and> call func pos kw = Inl exc \<longrightarrow>
        wrapper with_name func name args scope
          = Inr (Token ''PyObject'' [] (Finite 0) [] (Some []) NoScope
              (Some (PCoroutine
                 (if issubclass (exn_type exc) FemscriptException_t
                  then Inr (error (exn_str exc)) else Inl exc)))))
   \<and> t_type (error m) = ''Error''
   \<and> t_value (error m) = ''Error: '' @ m"
proof -
  have body: "except_FemscriptException (try_body with_name func name args)
      = (if issubclass (exn_type exc) FemscriptException_t
         then Inr (error (exn_str exc)) else Inl exc)"
    if "call_arguments with_name name args = Inr (pos, kw)" "call func pos kw = Inl exc" for exc
    using that by (simp add: try_body_def except_FemscriptException_def)
  have own: "issubclass (exn_type (Exn FemscriptException_t m)) FemscriptException_t"
    by (simp add: issubclass_refl)
  have sync: "wrapper with_name func name args scope
      = except_FemscriptException (try_body with_name func name args)"
    if "\<not> iscoroutinefunction func"
    using that by (simp add: wrapper_def)
  have async: "wrapper with_name func name args scope
      = Inr (Token ''PyObject'' [] (Finite 0) [] (Some []) NoScope
          (Some (PCoroutine (except_FemscriptException (try_body with_name func name args)))))"
    if "iscoroutinefunction func"
    using that by (simp add: wrapper_def fs_type_by_type coroutine_t_def)
  have 1: "wrapper with_name func name args scope = Inr (error m)"
    if "\<not> iscoroutinefunction func" "call_arguments with_name name args = Inr (pos, kw)"
      "call func pos kw = Inl (Exn FemscriptException_t m)"
    using sync [OF that(1)] body [OF that(2,3)] own by simp
  have 2: "wrapper with_name func name args scope = Inr (error (exn_str exc))"
    if "\<not> iscoroutinefunction func" "call_arguments with_name name args = Inr (pos, kw)"
      "call func pos kw = Inl exc" "issubclass (exn_type exc) FemscriptException_t"
    using sync [OF that(1)] body [OF that(2,3)] that(4) by simp
  have 3: "wrapper with_name func name args scope = Inl exc"
    if "\<not> iscoroutinefunction func" "call_arguments with_name name args = Inr (pos, kw)"
      "call func pos kw = Inl exc" "\<not> issubclass (exn_type exc) FemscriptException_t"
    using sync [OF that(1)] body [OF that(2,3)] that(4) by simp
  have 4: "wrapper with_name func name args scope
          = Inr (Token ''PyObject'' [] (Finite 0) [] (Some []) NoScope
              (Some (PCoroutine
                 (if issubclass (exn_type exc) FemscriptException_t
                  then Inr (error (exn_str exc)) else Inl exc))))"
    if "iscoroutinefunction func" "call_arguments with_name name args = Inr (pos, kw)"
      "call func pos kw = Inl exc"
    using async [OF that(1)] body [OF that(2,3)] by simp
  have 5: "t_type (error m) = ''Error''" "t_value (error m) = ''Error: '' @ m"
    by (simp_all add: error_def)
  show ?thesis
    using 1 2 3 4 5 by blast
qed

theorem wrapper_contains_FemscriptException_witness:
  "\<not> iscoroutinefunction (Callable ''check'' False (\<lambda>pos kw. Inl (Exn FemscriptException_t ''bad input'')))
   \<and> call_arguments None ''check'' (ArgsTuple []) = Inr ([], [])
   \<and> wrapper None (Callable ''check'' False (\<lambda>pos kw. Inl (Exn FemscriptException_t ''bad input'')))
        ''check'' (ArgsTuple []) []
       = Inr (Token ''Error'' ''Error: bad input'' (Finite 0) [] None NoScope None)
   \<and> \<not> issubclass (exn_type (TypeError ''bad'')) FemscriptException_t
   \<and> wrapper None (Callable ''check'' False (\<lambda>pos kw. Inl (TypeError ''bad'')))
        ''check'' (ArgsTuple []) []
       = Inl (TypeError ''bad'')"
  using wrapper_contains_FemscriptException [where func =
        "Callable ''check'' False (\<lambda>pos kw. Inl (Exn FemscriptException_t ''bad input''))"
      and with_name = None and name = "''check''" and args = "ArgsTuple []" and pos = "[]"
      and kw = "[]" and m = "''bad input''" and scope = "[]"]
    wrapper_contains_FemscriptException [where func =
        "Callable ''check'' False (\<lambda>pos kw. Inl (TypeError ''bad''))"
      and with_name = None and name = "''check''" and args = "ArgsTuple []" and pos = "[]"
      and kw = "[]" and exc = "TypeError ''bad''" and scope = "[]"]
  by (simp add: call_arguments_def call_name_def error_def issubclass_def TypeError_def
      FemscriptException_t_def Exception_t_def BaseException_t_def)

text \<open>
  C3 as stated, for every callable, fails on a coroutine function: when its call raises
  \<^verbatim>\<open>FemscriptException\<close> the wrapper returns the \<^verbatim>\<open>PyObject\<close> token of the coroutine
  and not \<^verbatim>\<open>error(m)\<close>, and when its call raises another exception the wrapper still
  returns that token and raises nothing.
\<close>

theorem wrapper_contains_FemscriptException_counterexample:
  "iscoroutinefunction (Callable ''check'' True (\<lambda>pos kw. Inl (Exn FemscriptException_t ''bad input'')))
   \<and> call_arguments None ''check'' (ArgsTuple []) = Inr ([], [])
   \<and> wrapper None (Callable ''check'' True (\<lambda>pos kw. Inl (Exn FemscriptException_t ''bad input'')))
        ''check'' (ArgsTuple []) []
       = Inr (Token ''PyObject'' [] (Finite 0) [] (Some []) NoScope
           (Some (PCoroutine (Inr (error ''bad input'')))))
   \<and> wrapper None (Callable ''check'' True (\<lambda>pos kw. Inl (Exn FemscriptException_t ''bad input'')))
        ''check'' (ArgsTuple []) []
       \<noteq> Inr (error ''bad input'')
   \<and> wrapper None (Callable ''check'' True (\<lambda>pos kw. Inl (TypeError ''bad'')))
        ''check'' (ArgsTuple []) []
       = Inr (Token ''PyObject'' [] (Finite 0) [] (Some []) NoScope
           (Some (PCoroutine (Inl (TypeError ''bad'')))))
   \<and> wrapper None (Callable ''check'' True (\<lambda>pos kw. Inl (TypeError ''bad'')))
        ''check'' (ArgsTuple []) []
       \<noteq> Inl (TypeError ''bad'')"
proof -
  have own: "issubclass FemscriptException_t FemscriptException_t"
    by (rule issubclass_refl)
  have other: "\<not> issubclass (exn_type (TypeError ''bad'')) FemscriptException_t"
    by (simp add: issubclass_def TypeError_def FemscriptException_t_def Exception_t_def
        BaseException_t_def)
  show ?thesis
    using own other
    by (simp add: wrapper_def try_body_def call_arguments_def call_name_def
        except_FemscriptException_def fs_type_by_type coroutine_t_def error_def)
qed

section \<open>Parsing again\<close>

lemma parse_modules_Program:
  "(name, Program p) \<in> set ms \<Longrightarrow> \<exists>e. fst (parse_modules eng ms) = Inl e"
proof (induction ms)
  case Nil
  then show ?case by simp
next
  case (Cons nm ms)
  obtain n m where nm: "nm = (n, m)" by (cases nm)
  show ?case
  proof (cases "parse_module eng m")
    case (Inl e)
    then show ?thesis by (simp add: nm)
  next
    case (Inr q)
    then have "m \<noteq> Program p" by (auto simp: parse_module_def)
    with Cons.prems have "(name, Program p) \<in> set ms" by (auto simp: nm)
    from Cons.IH [OF this] show ?thesis using Inr by (auto simp: nm split: prod.splits)
  qed
qed

lemma parse_modules_done:
  "parse_modules eng ms = (Inr (), ms') \<Longrightarrow>
     list_all2 (\<lambda>(n, m) (n', m'). n' = n \<and>
        (\<exists>src ts q. m = Source src \<and> generate_tokens eng src = Inr ts
           \<and> generate_ast eng ts = Inr q \<and> m' = Program q)) ms ms'"
proof (induction ms arbitrary: ms')
  case Nil
  then show ?case by simp
next
  case (Cons nm ms)
  obtain n m where nm: "nm = (n, m)" by (cases nm)
  from Cons.prems obtain q rest' where q: "parse_module eng m = Inr q"
    and rest: "parse_modules eng ms = (Inr (), rest')" and ms': "ms' = (n, Program q) # rest'"
    by (auto simp: nm split: sum.splits prod.splits)
  from q obtain src ts where "m = Source src" "generate_tokens eng src = Inr ts"
    "generate_ast eng ts = Inr q"
    by (auto simp: parse_module_def split: module.splits sum.splits)
  with Cons.IH [OF rest] show ?case by (simp add: nm ms')
qed

lemma dict_set_mem: "(k, v) \<in> set (dict_set k v d)"
  by (induction d) auto

lemma parse_raises_on_Program:
  assumes "(name, Program p) \<in> set (the_modules self)"
  shows "\<exists>e. fst (parse eng self code) = Inl e"
proof (cases "generate_tokens eng (case code of None \<Rightarrow> [] | Some c \<Rightarrow> c)")
  case (Inl e)
  then show ?thesis by (simp add: parse_def)
next
  case ts: (Inr ts)
  show ?thesis
  proof (cases "generate_ast eng ts")
    case (Inl e)
    with ts show ?thesis by (simp add: parse_def)
  next
    case (Inr a)
    from parse_modules_Program [OF assms, of eng] obtain e
      where "fst (parse_modules eng (the_modules self)) = Inl e" ..
    then obtain ms where "parse_modules eng (the_modules self) = (Inl e, ms)"
      by (cases "parse_modules eng (the_modules self)") simp
    with ts Inr show ?thesis by (simp add: parse_def)
  qed
qed

lemma parse_done_modules:
  assumes "parse eng self code = (Inr (), self')"
  shows "parse_modules eng (the_modules self) = (Inr (), the_modules self')"
  using assms by (auto simp: parse_def Let_def split: sum.splits prod.splits)

text \<open>
  C8. The first \<^verbatim>\<open>parse\<close> of an instance built with module sources leaves, under each
  name, the program of that module's source. It is the only one that does: the table then
  holds programs, not sources, and so it does after \<^verbatim>\<open>add_module\<close>; any later
  \<^verbatim>\<open>parse\<close> hands a program to the tokenizer and raises, whatever the engine.
\<close>

theorem parse_twice_raises:
  fixes eng :: "('ts, 'ast) engine" and self :: "('ts, 'ast) femscript"
  shows
  "(parse eng self code = (Inr (), self') \<longrightarrow>
      list_all2 (\<lambda>(n, m) (n', m'). n' = n \<and>
        (\<exists>src ts q. m = Source src \<and> generate_tokens eng src = Inr ts
           \<and> generate_ast eng ts = Inr q \<and> m' = Program q))
        (the_modules self) (the_modules self'))
   \<and> (parse eng self code = (Inr (), self') \<and> the_modules self \<noteq> [] \<longrightarrow>
        (\<exists>e. fst (parse eng self' code') = Inl e))
   \<and> (add_module eng self name src = (Inr (), self') \<longrightarrow>
        (\<exists>e. fst (parse eng self' code') = Inl e))"
proof -
  have a: "list_all2 (\<lambda>(n, m) (n', m'). n' = n \<and>
        (\<exists>src ts q. m = Source src \<and> generate_tokens eng src = Inr ts
           \<and> generate_ast eng ts = Inr q \<and> m' = Program q))
        (the_modules self) (the_modules self')"
    if "parse eng self code = (Inr (), self')"
    using parse_modules_done [OF parse_done_modules [OF that]] .
  have b: "\<exists>e. fst (parse eng self' code') = Inl e"
    if p: "parse eng self code = (Inr (), self')" and ne: "the_modules self \<noteq> []"
  proof -
    from ne obtain n m ms where ms: "the_modules self = (n, m) # ms"
      by (cases "the_modules self") auto
    from a [OF p] obtain q zs where "the_modules self' = (n, Program q) # zs"
      unfolding ms by (auto simp: list_all2_Cons1)
    then have "(n, Program q) \<in> set (the_modules self')" by simp
    from parse_raises_on_Program [OF this] show ?thesis .
  qed
  have c: "\<exists>e. fst (parse eng self' code') = Inl e"
    if "add_module eng self name src = (Inr (), self')"
  proof -
    from that obtain q where "the_modules self' = dict_set name (Program q) (the_modules self)"
      by (auto simp: add_module_def split: sum.splits)
    then have "(name, Program q) \<in> set (the_modules self')" by (simp add: dict_set_mem)
    from parse_raises_on_Program [OF this] show ?thesis .
  qed
  show ?thesis using a b c by blast
qed

theorem parse_twice_raises_witness:
  "add_module \<lparr>generate_tokens = (\<lambda>s. Inr s), generate_ast = (\<lambda>ts. Inr ts),
                execute_ast = (\<lambda>a vs fs ms dbg. Inr (error ''e'', []))\<rparr>
      \<lparr>tokens = None, ast = None, the_variables = [], the_functions = [], the_modules = []\<rparr>
      ''m'' ''x = 1;''
     = (Inr (), \<lparr>tokens = None, ast = None, the_variables = [], the_functions = [],
                 the_modules = [(''m'', Program ''x = 1;'')]\<rparr>)
   \<and> parse \<lparr>generate_tokens = (\<lambda>s. Inr s), generate_ast = (\<lambda>ts. Inr ts),
            execute_ast = (\<lambda>a vs fs ms dbg. Inr (error ''e'', []))\<rparr>
      \<lparr>tokens = None, ast = None, the_variables = [], the_functions = [],
        the_modules = [(''m'', Program ''x = 1;'')]\<rparr> (Some ''y = 2;'')
     = (Inl (TypeError ''argument code: list object cannot be converted to PyString''),
        \<lparr>tokens = Some ''y = 2;'', ast = Some ''y = 2;'', the_variables = [], the_functions = [],
          the_modules = [(''m'', Program ''x = 1;'')]\<rparr>)
   \<and> init \<lparr>generate_tokens = (\<lambda>s. Inr s), generate_ast = (\<lambda>ts. Inr ts),
            execute_ast = (\<lambda>a vs fs ms dbg. Inr (error ''e'', []))\<rparr>
        (Some ''y = 2;'') None None (Some [(''m'', ''x = 1;'')])
     = (Inr (), \<lparr>tokens = Some ''y = 2;'', ast = Some ''y = 2;'', the_variables = [],
                 the_functions = [], the_modules = [(''m'', Program ''x = 1;'')]\<rparr>)
   \<and> parse \<lparr>generate_tokens = (\<lambda>s. Inr s), generate_ast = (\<lambda>ts. Inr ts),
            execute_ast = (\<lambda>a vs fs ms dbg. Inr (error ''e'', []))\<rparr>
      \<lparr>tokens = Some ''y = 2;'', ast = Some ''y = 2;'', the_variables = [], the_functions = [],
        the_modules = [(''m'', Program ''x = 1;'')]\<rparr> (Some ''y = 2;'')
     = (Inl (TypeError ''argument code: list object cannot be converted to PyString''),
        \<lparr>tokens = Some ''y = 2;'', ast = Some ''y = 2;'', the_variables = [], the_functions = [],
          the_modules = [(''m'', Program ''x = 1;'')]\<rparr>)"
  using parse_twice_raises [where eng = "\<lparr>generate_tokens = (\<lambda>s. Inr s), generate_ast = (\<lambda>ts. Inr ts),
                execute_ast = (\<lambda>a vs fs ms dbg. Inr (error ''e'', []))\<rparr>"
      and self = "\<lparr>tokens = None, ast = None, the_variables = [], the_functions = [], the_modules = []\<rparr>"
      and name = "''m''" and src = "''x = 1;''" and code' = "Some ''y = 2;''"
      and self' = "\<lparr>tokens = None, ast = None, the_variables = [], the_functions = [],
                 the_modules = [(''m'', Program ''x = 1;'')]\<rparr>"]
    parse_twice_raises [where eng = "\<lparr>generate_tokens = (\<lambda>s. Inr s), generate_ast = (\<lambda>ts. Inr ts),
                execute_ast = (\<lambda>a vs fs ms dbg. Inr (error ''e'', []))\<rparr>"
      and self = "\<lparr>tokens = None, ast = None, the_variables = [], the_functions = [],
                 the_modules = [(''m'', Source ''x = 1;'')]\<rparr>"
      and code = "Some ''y = 2;''" and code' = "Some ''y = 2;''"
      and self' = "\<lparr>tokens = Some ''y = 2;'', ast = Some ''y = 2;'', the_variables = [],
                 the_functions = [], the_modules = [(''m'', Program ''x = 1;'')]\<rparr>"]
  by (simp add: add_module_def parse_module_def parse_def init_def)

end
